theory Spec2Isabelle
  imports Complex_Main
begin

section \<open>Data model\<close>

text \<open>
  BayScan keeps its state in one SQLite store, reached through SQLAlchemy sessions. A table
  is modelled as the list of its rows in rowid order, so that \<open>query(...).first()\<close> is the
  first row of the list that passes the filter. Python ints are modelled as \<open>int\<close> and a naive
  UTC \<open>datetime\<close> as its number of microseconds since the epoch (the resolution of Python's
  \<open>datetime\<close>). A Python float is modelled as the real number it stands for; the rounding
  of double arithmetic is written out in the smoothing of the cached score, where a bound
  depends on it, and the overflow of the power in the recent-activity loop is a branch of
  the model. Elsewhere the operations on floats are the exact ones.
\<close>

type_synonym datetime = int

definition timedelta_hours :: "int \<Rightarrow> int" where
  "timedelta_hours h = h * 3600000000"

text \<open>\<open>(a - b).total_seconds() / 3600\<close>\<close>

definition hours_between :: "datetime \<Rightarrow> datetime \<Rightarrow> real" where
  "hours_between a b = real_of_int (a - b) / 1000000 / 3600"

datatype py_error = ValueError | TypeError | OverflowError | Raised string

text \<open>The columns of \<open>Catch\<close> that the scoring and learning engine reads.\<close>

record catch_row =
  c_id :: nat
  c_timestamp :: datetime
  c_species :: string
  c_zone_id :: string
  c_size_bucket :: "string option"
  c_quantity :: "int option"
  c_kept :: bool
  c_presentation :: "string option"
  c_rig_type :: "string option"
  c_tide_stage :: "string option"
  c_current_speed :: "real option"
  c_wind_direction :: "string option"

record bait_log =
  bl_zone_id :: string
  bl_timestamp :: datetime

record predator_log =
  pl_zone :: string
  pl_time :: datetime

record bite_score =
  bs_species :: string
  bs_zone_id :: string
  bs_score :: real
  bs_rating :: string
  bs_confidence :: string
  bs_reason_summary :: string
  bs_last_updated :: datetime

text \<open>
  The three learning tables declare \<open>success_count\<close> as an integer column. The condition
  updaters add the fractional multiplier 0.15 to it, and SQLite keeps such a value as it
  is written, so the count is a real here.
\<close>

record rig_effect =
  re_species :: string
  re_zone_id :: string
  re_rig_type :: string
  re_success_count :: real
  re_weight :: real
  re_last_used :: "datetime option"

record zone_condition_effect =
  zce_species :: string
  zce_zone_id :: string
  zce_tide_band :: string
  zce_clarity_band :: string
  zce_wind_band :: string
  zce_current_band :: string
  zce_success_count :: real
  zce_weight :: real

record rig_condition_effect =
  rce_species :: string
  rce_rig_type :: string
  rce_tide_band :: string
  rce_clarity_band :: string
  rce_success_count :: real
  rce_weight :: real

record species_zone_tip =
  tip_species :: string
  tip_zone_id :: string
  tip_text :: string
  tip_last_updated :: datetime

record database =
  catches :: "catch_row list"
  bait_logs :: "bait_log list"
  predator_logs :: "predator_log list"
  bite_scores :: "bite_score list"
  rig_effects :: "rig_effect list"
  zone_condition_effects :: "zone_condition_effect list"
  rig_condition_effects :: "rig_condition_effect list"
  species_zone_tips :: "species_zone_tip list"

definition empty_database :: database where
  "empty_database =
     \<lparr>catches = [], bait_logs = [], predator_logs = [], bite_scores = [], rig_effects = [],
      zone_condition_effects = [], rig_condition_effects = [], species_zone_tips = []\<rparr>"

text \<open>
  The find-or-create pattern of the updaters: the first row passing the filter is replaced
  by its updated version; when there is none the new row is added at the end.
\<close>

fun put_first :: "('a \<Rightarrow> bool) \<Rightarrow> 'a \<Rightarrow> 'a list \<Rightarrow> 'a list" where
  "put_first P new [] = [new]"
| "put_first P new (x # xs) = (if P x then new # xs else x # put_first P new xs)"

section \<open>Double-precision arithmetic\<close>

text \<open>
  A Python float is an IEEE 754 binary64 number, and every arithmetic operation returns
  the exact result rounded to the nearest such number, ties going to the even significand.
  \<open>fl x\<close> is that rounding: the spacing of the doubles around \<open>x\<close> is
  \<open>2 ^ (e - 52)\<close>, where \<open>2 ^ e \<le> |x| < 2 ^ (e + 1)\<close> and \<open>e\<close> is not below -1022 (the
  subnormal range). Values beyond the largest double do not occur where \<open>fl\<close> is used: the
  scores are at most 100 and the weights at most 1.
\<close>

definition round_half_even :: "real \<Rightarrow> int" where
  "round_half_even x =
     (let n = \<lfloor>x\<rfloor>; r = x - of_int n in
      if r < 1 / 2 then n else if 1 / 2 < r then n + 1 else if even n then n else n + 1)"

definition double_quantum :: "real \<Rightarrow> real" where
  "double_quantum x = 2 powr (real_of_int (max \<lfloor>log 2 \<bar>x\<bar>\<rfloor> (- 1022)) - 52)"

definition fl :: "real \<Rightarrow> real" where
  "fl x = (if x = 0 then 0
           else real_of_int (round_half_even (x / double_quantum x)) * double_quantum x)"

text \<open>The relative spacing of the doubles, a bound for the error of one rounding.\<close>

definition double_eps :: real where
  "double_eps = 1 / 2 ^ 52"

section \<open>Score cache: \<open>score_cache_service.py\<close>\<close>

text \<open>
  In \<open>total_catches / 100.0\<close> the count is converted to a float and divided; the literals
  \<open>0.4\<close>, \<open>0.2\<close> and \<open>0.1\<close> are the doubles nearest to these decimals.
\<close>

definition get_smoothing_weight :: "int \<Rightarrow> real" where
  "get_smoothing_weight total_catches =
     (if total_catches < 10
      then fl (fl (4 / 10) + fl (fl (real_of_int total_catches) / 100))
      else if total_catches < 50
      then fl (fl (2 / 10) + fl (fl (real_of_int (50 - total_catches)) / 400))
      else fl (fl (1 / 10) + fl (fl (real_of_int (100 - min total_catches 100)) / 1000)))"

text \<open>
  The schedule as section 4.7 of the specification words it, in exact arithmetic, to compare
  with the code.
\<close>

definition spec_smoothing_weight :: "int \<Rightarrow> real" where
  "spec_smoothing_weight N =
     (if N < 10 then min 0.5 (0.4 + real_of_int N / 100)
      else if 10 \<le> N \<and> N < 50 then 0.2 + real_of_int (50 - N) / 400
      else 0.1 + real_of_int (100 - min N 100) / 1000)"

definition get_score_rating :: "real \<Rightarrow> string" where
  "get_score_rating score =
     (if score \<le> 20 then ''Poor''
      else if score \<le> 40 then ''Fair''
      else if score \<le> 60 then ''Good''
      else if score \<le> 80 then ''Great''
      else ''Excellent'')"

definition get_confidence_level :: "int \<Rightarrow> string" where
  "get_confidence_level total_catches =
     (if total_catches < 10 then ''low''
      else if total_catches < 50 then ''medium''
      else ''high'')"

text \<open>
  \<open>recalculate_bite_score\<close> obtains the raw score from \<open>calculate_zone_bite_score\<close> and the
  explanation from \<open>build_reason_summary\<close>, both computed from the environment tables and
  the rule tables. They enter the model as the parameter \<open>scoring\<close>, which returns the raw
  score and the reason summary or raises.
\<close>

type_synonym scoring =
  "database \<Rightarrow> string \<Rightarrow> string \<Rightarrow> datetime \<Rightarrow> py_error + (real \<times> string)"

definition count_catches :: "database \<Rightarrow> string \<Rightarrow> string \<Rightarrow> int" where
  "count_catches db species zone_id =
     int (length (filter (\<lambda>c. c_species c = species \<and> c_zone_id c = zone_id) (catches db)))"

definition is_bite_score_of :: "string \<Rightarrow> string \<Rightarrow> bite_score \<Rightarrow> bool" where
  "is_bite_score_of species zone_id b = (bs_species b = species \<and> bs_zone_id b = zone_id)"

text \<open>
  The result is the row written to \<open>bite_scores\<close> (the source returns a dictionary of the
  same values with the score rounded for display) or the exception, raised after a
  rollback that leaves the store as it was.
\<close>

definition recalculate_bite_score ::
  "scoring \<Rightarrow> database \<Rightarrow> string \<Rightarrow> string \<Rightarrow> bool \<Rightarrow> datetime
     \<Rightarrow> (py_error + bite_score) \<times> database" where
  "recalculate_bite_score scoring db species zone_id force_recalc now =
     (let total_catches = count_catches db species zone_id in
      case scoring db species zone_id now of
        Inl e \<Rightarrow> (Inl e, db)
      | Inr (raw_score, reason_summary) \<Rightarrow>
          let old_bite_score = find (is_bite_score_of species zone_id) (bite_scores db);
              new_score =
                (case old_bite_score of
                   Some old \<Rightarrow>
                     if \<not> force_recalc
                     then let old_score = bs_score old; w = get_smoothing_weight total_catches
                          in fl (fl (old_score * fl (1 - w)) + fl (raw_score * w))
                     else raw_score
                 | None \<Rightarrow> raw_score);
              new_score = max 0 (min 100 new_score);
              rating = get_score_rating new_score;
              confidence = get_confidence_level total_catches;
              row = \<lparr>bs_species = species, bs_zone_id = zone_id, bs_score = new_score,
                     bs_rating = rating, bs_confidence = confidence,
                     bs_reason_summary = reason_summary, bs_last_updated = now\<rparr>
          in (Inr row,
              db\<lparr>bite_scores := put_first (is_bite_score_of species zone_id) row (bite_scores db)\<rparr>))"

section \<open>Strings\<close>

text \<open>
  \<open>str.lower()\<close>, \<open>str.upper()\<close> and the substring test \<open>sub in s\<close>, on ASCII text
  (the tide stages, rig types and wind directions of this system are ASCII words).
\<close>

definition lower_char :: "char \<Rightarrow> char" where
  "lower_char c =
     (case map_of (zip ''ABCDEFGHIJKLMNOPQRSTUVWXYZ'' ''abcdefghijklmnopqrstuvwxyz'') c of
        Some d \<Rightarrow> d | None \<Rightarrow> c)"

definition upper_char :: "char \<Rightarrow> char" where
  "upper_char c =
     (case map_of (zip ''abcdefghijklmnopqrstuvwxyz'' ''ABCDEFGHIJKLMNOPQRSTUVWXYZ'') c of
        Some d \<Rightarrow> d | None \<Rightarrow> c)"

definition lower :: "string \<Rightarrow> string" where
  "lower s = map lower_char s"

definition upper :: "string \<Rightarrow> string" where
  "upper s = map upper_char s"

fun starts_with :: "string \<Rightarrow> string \<Rightarrow> bool" where
  "starts_with [] s = True"
| "starts_with (p # ps) [] = False"
| "starts_with (p # ps) (c # cs) = (p = c \<and> starts_with ps cs)"

text \<open>\<open>py_in sub s\<close> is Python's \<open>sub in s\<close>.\<close>

fun py_in :: "string \<Rightarrow> string \<Rightarrow> bool" where
  "py_in sub [] = (sub = [])"
| "py_in sub (c # cs) = (starts_with sub (c # cs) \<or> py_in sub cs)"

text \<open>Whether the lower-cased text contains one of the keywords.\<close>

definition mentions :: "string list \<Rightarrow> string \<Rightarrow> bool" where
  "mentions keywords s = list_ex (\<lambda>k. py_in k (lower s)) keywords"

text \<open>Truthiness of an optional string: \<open>None\<close> and the empty string are falsy.\<close>

definition truthy :: "string option \<Rightarrow> bool" where
  "truthy s = (case s of None \<Rightarrow> False | Some t \<Rightarrow> t \<noteq> [])"

text \<open>\<open>math.log\<close> raises \<open>ValueError\<close> outside its domain.\<close>

definition py_log :: "real \<Rightarrow> py_error + real" where
  "py_log x = (if 0 < x then Inr (ln x) else Inl ValueError)"

section \<open>Rig learning: \<open>rig_learning_service.py\<close>\<close>

definition is_rig_effect_of :: "string \<Rightarrow> string \<Rightarrow> string \<Rightarrow> rig_effect \<Rightarrow> bool" where
  "is_rig_effect_of species zone_id rig_type r =
     (re_species r = species \<and> re_zone_id r = zone_id \<and> re_rig_type r = rig_type)"

text \<open>
  The result pairs the returned row (or the exception, raised after a rollback) with the
  store after the call.
\<close>

definition update_rig_effect ::
  "database \<Rightarrow> string \<Rightarrow> string \<Rightarrow> string option \<Rightarrow> datetime
     \<Rightarrow> (py_error + rig_effect option) \<times> database" where
  "update_rig_effect db species zone_id rig_type now =
     (case rig_type of
        None \<Rightarrow> (Inr None, db)
      | Some rt \<Rightarrow>
          if rt = [] \<or> rt = ''unknown'' then (Inr None, db)
          else
            let rig_effect =
                  (case find (is_rig_effect_of species zone_id rt) (rig_effects db) of
                     Some r \<Rightarrow>
                       r\<lparr>re_success_count := re_success_count r + 1, re_last_used := Some now\<rparr>
                   | None \<Rightarrow>
                       \<lparr>re_species = species, re_zone_id = zone_id, re_rig_type = rt,
                        re_success_count = 1, re_weight = 0, re_last_used = Some now\<rparr>)
            in case py_log (re_success_count rig_effect + 1) of
                 Inl e \<Rightarrow> (Inl e, db)
               | Inr l \<Rightarrow>
                   let rig_effect = rig_effect\<lparr>re_weight := min 3 l\<rparr>
                   in (Inr (Some rig_effect),
                       db\<lparr>rig_effects :=
                            put_first (is_rig_effect_of species zone_id rt) rig_effect
                              (rig_effects db)\<rparr>))"

section \<open>Condition learning: \<open>condition_learning_service.py\<close>\<close>

definition classify_tide :: "string option \<Rightarrow> string" where
  "classify_tide tide_stage =
     (if \<not> truthy tide_stage then ''unknown''
      else
        let tide_lower = lower (the tide_stage) in
        if py_in ''incoming'' tide_lower \<or> py_in ''rising'' tide_lower then ''incoming''
        else if py_in ''outgoing'' tide_lower \<or> py_in ''falling'' tide_lower then ''outgoing''
        else if py_in ''slack'' tide_lower \<or> py_in ''high'' tide_lower \<or> py_in ''low'' tide_lower
        then ''slack''
        else ''unknown'')"

definition classify_clarity :: "string option \<Rightarrow> string" where
  "classify_clarity clarity =
     (if \<not> truthy clarity then ''clean''
      else
        let clarity_lower = lower (the clarity) in
        if py_in ''muddy'' clarity_lower \<or> py_in ''dirty'' clarity_lower then ''muddy''
        else if py_in ''stained'' clarity_lower \<or> py_in ''off'' clarity_lower then ''stained''
        else ''clean'')"

text \<open>
  \<open>classify_wind\<close> reads the entry \<open>wind_preferences\<close> of the species profile: its lists
  \<open>favorable\<close> and \<open>unfavorable\<close>. No profile of \<open>SPECIES_PROFILES\<close> has that entry (the
  profiles keep their wind data under \<open>wind\<close>), so the lookup finds nothing for every
  species.
\<close>

definition wind_preferences :: "string \<Rightarrow> (string list \<times> string list) option" where
  "wind_preferences species = None"

definition classify_wind :: "string option \<Rightarrow> string \<Rightarrow> string" where
  "classify_wind wind_direction species =
     (if \<not> truthy wind_direction then ''neutral''
      else
        case wind_preferences species of
          None \<Rightarrow> ''neutral''
        | Some (favorable, unfavorable) \<Rightarrow>
            let wind_upper = upper (the wind_direction) in
            if list_ex (\<lambda>fav. py_in (upper fav) wind_upper) favorable then ''favorable''
            else if list_ex (\<lambda>unfav. py_in (upper unfav) wind_upper) unfavorable
            then ''unfavorable''
            else ''neutral'')"

definition classify_current :: "real option \<Rightarrow> string" where
  "classify_current current_speed =
     (case current_speed of
        None \<Rightarrow> ''low''
      | Some v \<Rightarrow>
          if v \<le> 0 then ''low''
          else if v < 0.3 then ''low''
          else if v < 0.6 then ''medium''
          else ''high'')"

text \<open>The dictionary \<open>conditions\<close> handed to the condition updaters.\<close>

record conditions =
  cond_tide_stage :: "string option"
  cond_clarity :: "string option"
  cond_wind_direction :: "string option"
  cond_current_speed :: "real option"

definition is_zone_condition_effect_of ::
  "string \<Rightarrow> string \<Rightarrow> string \<Rightarrow> string \<Rightarrow> string \<Rightarrow> string
     \<Rightarrow> zone_condition_effect \<Rightarrow> bool" where
  "is_zone_condition_effect_of species zone_id tide_band clarity_band wind_band current_band r =
     (zce_species r = species \<and> zce_zone_id r = zone_id \<and> zce_tide_band r = tide_band
      \<and> zce_clarity_band r = clarity_band \<and> zce_wind_band r = wind_band
      \<and> zce_current_band r = current_band)"

definition update_zone_condition_effect ::
  "database \<Rightarrow> string \<Rightarrow> string \<Rightarrow> conditions \<Rightarrow> real
     \<Rightarrow> (py_error + zone_condition_effect option) \<times> database" where
  "update_zone_condition_effect db species zone_id conds weight_multiplier =
     (let tide_band = classify_tide (cond_tide_stage conds);
          clarity_band = classify_clarity (cond_clarity conds);
          wind_band = classify_wind (cond_wind_direction conds) species;
          current_band = classify_current (cond_current_speed conds)
      in
        if tide_band = ''unknown'' then (Inr None, db)
        else
          let same = is_zone_condition_effect_of species zone_id tide_band clarity_band
                       wind_band current_band;
              zce =
                (case find same (zone_condition_effects db) of
                   Some r \<Rightarrow> r\<lparr>zce_success_count := zce_success_count r + weight_multiplier\<rparr>
                 | None \<Rightarrow>
                     \<lparr>zce_species = species, zce_zone_id = zone_id, zce_tide_band = tide_band,
                      zce_clarity_band = clarity_band, zce_wind_band = wind_band,
                      zce_current_band = current_band, zce_success_count = weight_multiplier,
                      zce_weight = 0\<rparr>)
          in case py_log (zce_success_count zce + 1) of
               Inl e \<Rightarrow> (Inl e, db)
             | Inr l \<Rightarrow>
                 let zce = zce\<lparr>zce_weight := min 4 l\<rparr>
                 in (Inr (Some zce),
                     db\<lparr>zone_condition_effects :=
                          put_first same zce (zone_condition_effects db)\<rparr>))"

definition is_rig_condition_effect_of ::
  "string \<Rightarrow> string \<Rightarrow> string \<Rightarrow> string \<Rightarrow> rig_condition_effect \<Rightarrow> bool" where
  "is_rig_condition_effect_of species rig_type tide_band clarity_band r =
     (rce_species r = species \<and> rce_rig_type r = rig_type \<and> rce_tide_band r = tide_band
      \<and> rce_clarity_band r = clarity_band)"

definition update_rig_condition_effect ::
  "database \<Rightarrow> string \<Rightarrow> string option \<Rightarrow> conditions \<Rightarrow> real
     \<Rightarrow> (py_error + rig_condition_effect option) \<times> database" where
  "update_rig_condition_effect db species rig_type conds weight_multiplier =
     (case rig_type of
        None \<Rightarrow> (Inr None, db)
      | Some rt \<Rightarrow>
          if rt = [] \<or> rt = ''unknown'' then (Inr None, db)
          else
            let tide_band = classify_tide (cond_tide_stage conds);
                clarity_band = classify_clarity (cond_clarity conds)
            in
              if tide_band = ''unknown'' then (Inr None, db)
              else
                let same = is_rig_condition_effect_of species rt tide_band clarity_band;
                    rce =
                      (case find same (rig_condition_effects db) of
                         Some r \<Rightarrow>
                           r\<lparr>rce_success_count := rce_success_count r + weight_multiplier\<rparr>
                       | None \<Rightarrow>
                           \<lparr>rce_species = species, rce_rig_type = rt, rce_tide_band = tide_band,
                            rce_clarity_band = clarity_band,
                            rce_success_count = weight_multiplier, rce_weight = 0\<rparr>)
                in case py_log (rce_success_count rce + 1) of
                     Inl e \<Rightarrow> (Inl e, db)
                   | Inr l \<Rightarrow>
                       let rce = rce\<lparr>rce_weight := min 4 l\<rparr>
                       in (Inr (Some rce),
                           db\<lparr>rig_condition_effects :=
                                put_first same rce (rig_condition_effects db)\<rparr>))"

section \<open>Species tiers: \<open>species_tiers.py\<close>\<close>

definition TIER_1_SPECIES :: "string list" where
  "TIER_1_SPECIES = [''speckled_trout'', ''redfish'', ''flounder'', ''sheepshead'', ''black_drum'']"

definition TIER_2_SPECIES :: "string list" where
  "TIER_2_SPECIES =
     [''croaker'', ''white_trout'', ''menhaden'', ''mullet'', ''jack_crevalle'', ''blue_crab'']"

definition get_species_tier :: "string \<Rightarrow> nat" where
  "get_species_tier species_key =
     (if species_key \<in> set TIER_1_SPECIES then 1
      else if species_key \<in> set TIER_2_SPECIES then 2
      else 2)"

definition should_use_full_scoring :: "string \<Rightarrow> bool" where
  "should_use_full_scoring species_key = (get_species_tier species_key = 1)"

section \<open>Confidence and time-decayed modifiers\<close>

subsection \<open>\<open>confidence_scoring.py\<close>\<close>

record confidence =
  level :: string
  sample_count :: int
  recent_activity_weight :: real

definition calculate_species_zone_confidence :: "database \<Rightarrow> string \<Rightarrow> string \<Rightarrow> confidence" where
  "calculate_species_zone_confidence db species zone_id =
     (let count = count_catches db species zone_id in
      if count < 10 then \<lparr>level = ''LOW'', sample_count = count, recent_activity_weight = 0.3\<rparr>
      else if count < 50
      then \<lparr>level = ''MEDIUM'', sample_count = count, recent_activity_weight = 0.6\<rparr>
      else \<lparr>level = ''HIGH'', sample_count = count, recent_activity_weight = 1.0\<rparr>)"

subsection \<open>\<open>hyperlocal_scoring.py\<close>\<close>

text \<open>
  \<open>0.75 ** hours_ago\<close> raises \<open>OverflowError\<close> when the power is beyond the doubles, that
  is when it is not below \<open>2 ^ 1024 - 2 ^ 970\<close>, the least value that rounds to infinity.
\<close>

definition py_pow :: "real \<Rightarrow> real \<Rightarrow> py_error + real" where
  "py_pow b e = (if b powr e < 2 ^ 1024 - 2 ^ 970 then Inr (b powr e) else Inl OverflowError)"

text \<open>
  The loop over the recent catches. A row whose \<open>quantity\<close> is NULL makes the product
  raise \<open>TypeError\<close>.
\<close>

fun recent_activity_loop :: "datetime \<Rightarrow> catch_row list \<Rightarrow> real \<Rightarrow> py_error + real" where
  "recent_activity_loop now [] score = Inr score"
| "recent_activity_loop now (catch # rest) score =
     (let hours_ago = hours_between now (c_timestamp catch);
          base_value = 4
      in case py_pow 0.75 hours_ago of
           Inl e \<Rightarrow> Inl e
         | Inr decay_factor \<Rightarrow>
             (case c_quantity catch of
                None \<Rightarrow> Inl TypeError
              | Some quantity \<Rightarrow>
                  recent_activity_loop now rest
                    (score + base_value * decay_factor * real_of_int quantity)))"

definition recent_catches_of :: "database \<Rightarrow> string \<Rightarrow> string \<Rightarrow> datetime \<Rightarrow> catch_row list" where
  "recent_catches_of db species zone_id now =
     (let cutoff = now - timedelta_hours 6 in
      filter (\<lambda>c. c_species c = species \<and> c_zone_id c = zone_id \<and> cutoff \<le> c_timestamp c)
        (catches db))"

definition calculate_recent_activity_modifier ::
  "database \<Rightarrow> string \<Rightarrow> string \<Rightarrow> confidence \<Rightarrow> datetime \<Rightarrow> real" where
  "calculate_recent_activity_modifier db species zone_id conf now =
     (case recent_activity_loop now (recent_catches_of db species zone_id now) 0 of
        Inl e \<Rightarrow> 0
      | Inr score \<Rightarrow>
          let weight = recent_activity_weight conf;
              score = score * weight
          in min 10 score)"

text \<open>
  The local \<open>recent_activity\<close> of \<open>calculate_zone_bite_score\<close>: a species with full
  scoring (Tier 1) gets the modifier computed with the confidence of the pair, every other
  species gets 0.
\<close>

definition recent_activity_modifier :: "database \<Rightarrow> string \<Rightarrow> string \<Rightarrow> datetime \<Rightarrow> real" where
  "recent_activity_modifier db species zone_id now =
     (let confidence = calculate_species_zone_confidence db species zone_id in
      if should_use_full_scoring species
      then calculate_recent_activity_modifier db species zone_id confidence now
      else 0)"




subsection \<open>\<open>species_behavior_profiles.py\<close> and the predator penalty\<close>

definition prey_list :: "string list" where
  "prey_list = [''speckled_trout'', ''white_trout'', ''menhaden'', ''mullet'', ''live_shrimp'']"

definition is_prey_species :: "string \<Rightarrow> bool" where
  "is_prey_species species_key = (species_key \<in> set prey_list)"

text \<open>
  \<open>max(rows, key=...)\<close> keeps the first row among those with the greatest key.
\<close>

fun max_by :: "('a \<Rightarrow> int) \<Rightarrow> 'a \<Rightarrow> 'a list \<Rightarrow> 'a" where
  "max_by key best [] = best"
| "max_by key best (x # xs) = max_by key (if key best < key x then x else best) xs"

definition recent_predators_of :: "database \<Rightarrow> string \<Rightarrow> datetime \<Rightarrow> predator_log list" where
  "recent_predators_of db zone_id now =
     (let cutoff = now - timedelta_hours 4 in
      filter (\<lambda>p. pl_zone p = zone_id \<and> cutoff \<le> pl_time p) (predator_logs db))"

definition calculate_predator_modifier :: "database \<Rightarrow> string \<Rightarrow> string \<Rightarrow> datetime \<Rightarrow> real" where
  "calculate_predator_modifier db species zone_id now =
     (if \<not> is_prey_species species then 0
      else
        case recent_predators_of db zone_id now of
          [] \<Rightarrow> 0
        | p # ps \<Rightarrow>
            let most_recent = max_by pl_time p ps;
                hours_ago = hours_between now (pl_time most_recent);
                base_penalty = - 8;
                decay_factor = max 0 (1 - hours_ago / 4)
            in base_penalty * decay_factor)"

section \<open>Periodic recalculation: \<open>scheduler.py\<close>\<close>

text \<open>
  \<open>update_species_zone_tip\<close> builds the tip from rule tables and writes only the table of
  tips. It enters the model as a parameter that returns the new contents of that table or
  raises.
\<close>

type_synonym tip_updater =
  "database \<Rightarrow> string \<Rightarrow> string \<Rightarrow> datetime \<Rightarrow> py_error + species_zone_tip list"

definition update_species_zone_tip ::
  "tip_updater \<Rightarrow> database \<Rightarrow> string \<Rightarrow> string \<Rightarrow> datetime \<Rightarrow> (py_error + unit) \<times> database" where
  "update_species_zone_tip tips db species zone_id now =
     (case tips db species zone_id now of
        Inl e \<Rightarrow> (Inl e, db)
      | Inr table \<Rightarrow> (Inr (), db\<lparr>species_zone_tips := table\<rparr>))"

text \<open>
  The pairs collected before the fallback. The query for recent bait activity is made and
  its result is not read again.
\<close>

definition recent_activity_pairs :: "database \<Rightarrow> datetime \<Rightarrow> (string \<times> string) list" where
  "recent_activity_pairs db now =
     (let cutoff = now - timedelta_hours 6;
          recent_catches =
            remdups (map (\<lambda>c. (c_species c, c_zone_id c))
                       (filter (\<lambda>c. cutoff \<le> c_timestamp c) (catches db)));
          recent_bait =
            remdups (map bl_zone_id (filter (\<lambda>b. cutoff \<le> bl_timestamp b) (bait_logs db)));
          recent_predators =
            remdups (map pl_zone (filter (\<lambda>p. cutoff \<le> pl_time p) (predator_logs db)));
          prey_species = [''speckled_trout'', ''white_trout'', ''menhaden'', ''mullet'']
      in remdups
           (recent_catches @ concat (map (\<lambda>zone. map (\<lambda>prey. (prey, zone)) prey_species)
                                         recent_predators)))"

definition pairs_to_recalc :: "database \<Rightarrow> datetime \<Rightarrow> (string \<times> string) list" where
  "pairs_to_recalc db now =
     (let pairs = recent_activity_pairs db now in
      if pairs = []
      then
        let zones = [''Zone 1'', ''Zone 2'', ''Zone 3'', ''Zone 4'', ''Zone 5'']
        in concat (map (\<lambda>species. map (\<lambda>zone. (species, zone)) zones) TIER_1_SPECIES)
      else pairs)"

text \<open>The loop over the pairs: a pair whose recalculation or tip update raises is logged and skipped.\<close>

fun recalc_loop ::
  "scoring \<Rightarrow> tip_updater \<Rightarrow> datetime \<Rightarrow> (string \<times> string) list \<Rightarrow> nat \<Rightarrow> database
     \<Rightarrow> nat \<times> database" where
  "recalc_loop scoring tips now [] count db = (count, db)"
| "recalc_loop scoring tips now ((species, zone) # rest) count db =
     (case recalculate_bite_score scoring db species zone False now of
        (Inl e, db1) \<Rightarrow> recalc_loop scoring tips now rest count db1
      | (Inr row, db1) \<Rightarrow>
          (case update_species_zone_tip tips db1 species zone now of
             (Inl e, db2) \<Rightarrow> recalc_loop scoring tips now rest count db2
           | (Inr u, db2) \<Rightarrow> recalc_loop scoring tips now rest (count + 1) db2))"

definition periodic_score_recalculation ::
  "scoring \<Rightarrow> tip_updater \<Rightarrow> database \<Rightarrow> datetime \<Rightarrow> nat \<times> database" where
  "periodic_score_recalculation scoring tips db now =
     recalc_loop scoring tips now (pairs_to_recalc db now) 0 db"

section \<open>Logging a catch: \<open>main.py\<close>\<close>

subsection \<open>The request model\<close>

text \<open>
  \<open>CatchCreate\<close> has a field \<open>presentation\<close> and no field \<open>rig_type\<close>. The request body is
  a decoded JSON object. With the default configuration of the validation library a key
  of the body that names no field of the model is dropped.
\<close>

record CatchCreate =
  cc_species :: string
  cc_zone_id :: string
  cc_distance_from_dock :: "string option"
  cc_depth_estimate :: "string option"
  cc_structure_type :: "string option"
  cc_size_length_in :: "int option"
  cc_size_bucket :: "string option"
  cc_quantity :: "int option"
  cc_bait_used :: "string option"
  cc_presentation :: "string option"
  cc_predator_seen_recently :: bool
  cc_kept :: bool
  cc_notes :: "string option"
  cc_days_since_last_checked :: "int option"
  cc_timestamp :: "datetime option"

datatype json = JNull | JBool bool | JInt int | JStr string

datatype http_error = HTTP422 | HTTP500 py_error

text \<open>
  The validation of one field gives the value, or the answer 422, or no statement: where
  the outcome depends on a coercion of the validation library (a number given for a text
  or a flag, a text given for a number, the reading of a timestamp) the model says
  nothing.
\<close>

datatype 'a field = Valid 'a | Rejected | Unmodelled

definition and_then :: "'a field \<Rightarrow> ('a \<Rightarrow> 'b field) \<Rightarrow> 'b field" where
  "and_then f g = (case f of Valid x \<Rightarrow> g x | Rejected \<Rightarrow> Rejected | Unmodelled \<Rightarrow> Unmodelled)"

definition required_str :: "(string \<times> json) list \<Rightarrow> string \<Rightarrow> string field" where
  "required_str body key =
     (case map_of body key of
        None \<Rightarrow> Rejected | Some JNull \<Rightarrow> Rejected | Some (JStr v) \<Rightarrow> Valid v
      | _ \<Rightarrow> Unmodelled)"

definition optional_str :: "(string \<times> json) list \<Rightarrow> string \<Rightarrow> string option field" where
  "optional_str body key =
     (case map_of body key of
        None \<Rightarrow> Valid None | Some JNull \<Rightarrow> Valid None | Some (JStr v) \<Rightarrow> Valid (Some v)
      | _ \<Rightarrow> Unmodelled)"

definition optional_int ::
  "(string \<times> json) list \<Rightarrow> string \<Rightarrow> int option \<Rightarrow> int option field" where
  "optional_int body key dflt =
     (case map_of body key of
        None \<Rightarrow> Valid dflt | Some JNull \<Rightarrow> Valid None | Some (JInt v) \<Rightarrow> Valid (Some v)
      | _ \<Rightarrow> Unmodelled)"

definition plain_bool :: "(string \<times> json) list \<Rightarrow> string \<Rightarrow> bool \<Rightarrow> bool field" where
  "plain_bool body key dflt =
     (case map_of body key of
        None \<Rightarrow> Valid dflt | Some JNull \<Rightarrow> Rejected | Some (JBool v) \<Rightarrow> Valid v
      | _ \<Rightarrow> Unmodelled)"

definition optional_datetime ::
  "(string \<times> json) list \<Rightarrow> string \<Rightarrow> datetime option field" where
  "optional_datetime body key =
     (case map_of body key of
        None \<Rightarrow> Valid None | Some JNull \<Rightarrow> Valid None | _ \<Rightarrow> Unmodelled)"

definition parse_CatchCreate :: "(string \<times> json) list \<Rightarrow> CatchCreate field" where
  "parse_CatchCreate body =
     and_then (required_str body ''species'') (\<lambda>species.
     and_then (required_str body ''zone_id'') (\<lambda>zone_id.
     and_then (optional_str body ''distance_from_dock'') (\<lambda>distance_from_dock.
     and_then (optional_str body ''depth_estimate'') (\<lambda>depth_estimate.
     and_then (optional_str body ''structure_type'') (\<lambda>structure_type.
     and_then (optional_int body ''size_length_in'' None) (\<lambda>size_length_in.
     and_then (optional_str body ''size_bucket'') (\<lambda>size_bucket.
     and_then (optional_int body ''quantity'' (Some 1)) (\<lambda>quantity.
     and_then (optional_str body ''bait_used'') (\<lambda>bait_used.
     and_then (optional_str body ''presentation'') (\<lambda>presentation.
     and_then (plain_bool body ''predator_seen_recently'' False) (\<lambda>predator_seen_recently.
     and_then (plain_bool body ''kept'' False) (\<lambda>kept.
     and_then (optional_str body ''notes'') (\<lambda>notes.
     and_then (optional_int body ''days_since_last_checked'' None) (\<lambda>days_since_last_checked.
     and_then (optional_datetime body ''timestamp'') (\<lambda>timestamp.
       Valid \<lparr>cc_species = species, cc_zone_id = zone_id,
               cc_distance_from_dock = distance_from_dock, cc_depth_estimate = depth_estimate,
               cc_structure_type = structure_type, cc_size_length_in = size_length_in,
               cc_size_bucket = size_bucket, cc_quantity = quantity, cc_bait_used = bait_used,
               cc_presentation = presentation,
               cc_predator_seen_recently = predator_seen_recently, cc_kept = kept,
               cc_notes = notes, cc_days_since_last_checked = days_since_last_checked,
               cc_timestamp = timestamp\<rparr>)))))))))))))))"

subsection \<open>Display names: \<open>seasonality.py\<close>\<close>

definition letters :: string where
  "letters = ''ABCDEFGHIJKLMNOPQRSTUVWXYZabcdefghijklmnopqrstuvwxyz''"

fun title_from :: "bool \<Rightarrow> string \<Rightarrow> string" where
  "title_from prev_cased [] = []"
| "title_from prev_cased (c # cs) =
     (if c \<in> set letters
      then (if prev_cased then lower_char c else upper_char c) # title_from True cs
      else c # title_from False cs)"

definition display_names :: "(string \<times> string) list" where
  "display_names =
     [(''speckled_trout'', ''Speckled Trout''), (''redfish'', ''Redfish''),
      (''flounder'', ''Flounder''), (''sheepshead'', ''Sheepshead''), (''mullet'', ''Mullet''),
      (''mackerel'', ''Mackerel''), (''croaker'', ''Croaker''), (''stingray'', ''Stingray''),
      (''shark'', ''Shark''), (''black_drum'', ''Black Drum''),
      (''tripletail'', ''Tripletail (Blackfish)''), (''jack_crevalle'', ''Jack Crevalle''),
      (''white_trout'', ''White Trout''), (''blue_crab'', ''Blue Crab'')]"

definition get_species_display_name :: "string \<Rightarrow> string" where
  "get_species_display_name species =
     (case map_of display_names species of
        Some name \<Rightarrow> name
      | None \<Rightarrow> title_from False (map (\<lambda>c. if c = CHR ''_'' then CHR '' '' else c) species))"

subsection \<open>The handler\<close>

text \<open>
  What the handler reads from outside the tables of this model: the clock, the conversion
  from Central time, the look-ups in the tide, astronomy and snapshot tables (which may
  raise) and the outcome of the commit of the new row.
\<close>

record env_values =
  ev_tide_stage :: "string option"
  ev_wind_direction :: "string option"
  ev_current_speed :: "real option"

record catch_env =
  env_central_to_utc :: "datetime \<Rightarrow> datetime"
  env_central_now :: datetime
  env_utcnow :: datetime
  env_lookup :: "datetime \<Rightarrow> py_error + env_values"
  env_commit_error :: "py_error option"

text \<open>The five functions that the event triggers call, bound when the handler runs.\<close>

record trigger_ops =
  op_update_rig_effect ::
    "database \<Rightarrow> string \<Rightarrow> string \<Rightarrow> string option \<Rightarrow> datetime
       \<Rightarrow> (py_error + rig_effect option) \<times> database"
  op_update_zone_condition_effect ::
    "database \<Rightarrow> string \<Rightarrow> string \<Rightarrow> conditions \<Rightarrow> real
       \<Rightarrow> (py_error + zone_condition_effect option) \<times> database"
  op_update_rig_condition_effect ::
    "database \<Rightarrow> string \<Rightarrow> string option \<Rightarrow> conditions \<Rightarrow> real
       \<Rightarrow> (py_error + rig_condition_effect option) \<times> database"
  op_recalculate_bite_score ::
    "database \<Rightarrow> string \<Rightarrow> string \<Rightarrow> bool \<Rightarrow> datetime \<Rightarrow> (py_error + bite_score) \<times> database"
  op_update_species_zone_tip ::
    "database \<Rightarrow> string \<Rightarrow> string \<Rightarrow> datetime \<Rightarrow> (py_error + unit) \<times> database"

definition bayscan_ops :: "scoring \<Rightarrow> tip_updater \<Rightarrow> trigger_ops" where
  "bayscan_ops scoring tips =
     \<lparr>op_update_rig_effect = update_rig_effect,
      op_update_zone_condition_effect = update_zone_condition_effect,
      op_update_rig_condition_effect = update_rig_condition_effect,
      op_recalculate_bite_score = recalculate_bite_score scoring,
      op_update_species_zone_tip = update_species_zone_tip tips\<rparr>"

text \<open>Sequencing inside a \<open>try\<close> block: the first exception ends the block.\<close>

definition then_step ::
  "(py_error + 'a) \<times> database \<Rightarrow> (database \<Rightarrow> (py_error + 'b) \<times> database)
     \<Rightarrow> (py_error + 'b) \<times> database" where
  "then_step r f = (case r of (Inl e, db) \<Rightarrow> (Inl e, db) | (Inr x, db) \<Rightarrow> f db)"

definition next_catch_id :: "database \<Rightarrow> nat" where
  "next_catch_id db = fold max (map c_id (catches db)) 0 + 1"

text \<open>
  An integer column of SQLite holds a signed 64-bit value; the commit of a row with an
  integer outside that range raises \<open>OverflowError\<close>.
\<close>

definition fits_integer_column :: "int option \<Rightarrow> bool" where
  "fits_integer_column v = (case v of None \<Rightarrow> True | Some n \<Rightarrow> - (2 ^ 63) \<le> n \<and> n < 2 ^ 63)"

text \<open>Everything up to and including the commit of the \<open>Catch\<close> row.\<close>

definition persist_catch ::
  "catch_env \<Rightarrow> database \<Rightarrow> CatchCreate \<Rightarrow> py_error + (catch_row \<times> database)" where
  "persist_catch env db catch_data =
     (let catch_time =
            (case cc_timestamp catch_data of
               Some t \<Rightarrow> env_central_to_utc env t
             | None \<Rightarrow> env_central_to_utc env (env_central_now env))
      in case env_lookup env catch_time of
           Inl e \<Rightarrow> Inl e
         | Inr ev \<Rightarrow>
             let rig_type = cc_presentation catch_data;
                 catch =
                   \<lparr>c_id = next_catch_id db, c_timestamp = catch_time,
                    c_species = cc_species catch_data, c_zone_id = cc_zone_id catch_data,
                    c_size_bucket = cc_size_bucket catch_data,
                    c_quantity =
                      (case cc_quantity catch_data of
                         None \<Rightarrow> Some 1 | Some q \<Rightarrow> if q = 0 then Some 1 else Some q),
                    c_kept = cc_kept catch_data, c_presentation = cc_presentation catch_data,
                    c_rig_type = rig_type, c_tide_stage = ev_tide_stage ev,
                    c_current_speed = ev_current_speed ev,
                    c_wind_direction = ev_wind_direction ev\<rparr>
             in if \<not> (fits_integer_column (cc_size_length_in catch_data)
                      \<and> fits_integer_column (c_quantity catch)
                      \<and> fits_integer_column (cc_days_since_last_checked catch_data))
                then Inl OverflowError
                else
                  case env_commit_error env of
                    Some e \<Rightarrow> Inl e
                  | None \<Rightarrow> Inr (catch, db\<lparr>catches := catches db @ [catch]\<rparr>))"

definition is_crab_trap :: "string \<Rightarrow> string option \<Rightarrow> bool" where
  "is_crab_trap species rig_type =
     (species = ''blue_crab'' \<and> truthy rig_type
      \<and> (py_in ''trap'' (lower (the rig_type)) \<or> py_in ''pot'' (lower (the rig_type))))"

definition condition_weight :: "string \<Rightarrow> string option \<Rightarrow> real" where
  "condition_weight species rig_type = (if is_crab_trap species rig_type then 0.15 else 1.0)"

text \<open>The body of the \<open>try\<close> block of the event triggers.\<close>

definition catch_triggers ::
  "catch_env \<Rightarrow> trigger_ops \<Rightarrow> database \<Rightarrow> catch_row \<Rightarrow> (py_error + unit) \<times> database" where
  "catch_triggers env ops db catch =
     (let rig_type = c_rig_type catch;
          species = c_species catch;
          zone_id = c_zone_id catch;
          weight = condition_weight species rig_type;
          conditions_for_learning =
            \<lparr>cond_tide_stage = c_tide_stage catch, cond_clarity = Some ''clean'',
             cond_wind_direction = c_wind_direction catch,
             cond_current_speed = c_current_speed catch\<rparr>
      in
        then_step
          (if truthy rig_type
           then op_update_rig_effect ops db species zone_id rig_type (env_utcnow env)
           else (Inr None, db))
        (\<lambda>db.
        then_step
          (op_update_zone_condition_effect ops db species zone_id conditions_for_learning weight)
        (\<lambda>db.
        then_step
          (if truthy rig_type
           then op_update_rig_condition_effect ops db species rig_type conditions_for_learning
                  weight
           else (Inr None, db))
        (\<lambda>db.
        then_step (op_recalculate_bite_score ops db species zone_id False (env_utcnow env))
        (\<lambda>db. op_update_species_zone_tip ops db species zone_id (env_utcnow env))))))"

record catch_response =
  cr_id :: nat
  cr_species :: string
  cr_species_key :: string
  cr_zone_id :: string
  cr_timestamp :: datetime
  cr_size_bucket :: "string option"
  cr_kept :: bool
  cr_message :: string

definition success_response :: "catch_row \<Rightarrow> catch_response" where
  "success_response catch =
     \<lparr>cr_id = c_id catch, cr_species = get_species_display_name (c_species catch),
      cr_species_key = c_species catch, cr_zone_id = c_zone_id catch,
      cr_timestamp = c_timestamp catch, cr_size_bucket = c_size_bucket catch,
      cr_kept = c_kept catch,
      cr_message = ''Catch logged successfully with full environment snapshot''\<rparr>"

text \<open>
  An exception of the event triggers is logged and dropped; an exception before the commit
  becomes the answer 500 after a rollback.
\<close>

definition log_catch ::
  "catch_env \<Rightarrow> trigger_ops \<Rightarrow> database \<Rightarrow> CatchCreate
     \<Rightarrow> (http_error + catch_response) \<times> database" where
  "log_catch env ops db catch_data =
     (case persist_catch env db catch_data of
        Inl e \<Rightarrow> (Inl (HTTP500 e), db)
      | Inr (catch, db1) \<Rightarrow>
          (case catch_triggers env ops db1 catch of
             (Inl e, db2) \<Rightarrow> (Inr (success_response catch), db2)
           | (Inr u, db2) \<Rightarrow> (Inr (success_response catch), db2)))"

text \<open>The endpoint: validation of the body, then the handler.\<close>

definition post_catches ::
  "catch_env \<Rightarrow> trigger_ops \<Rightarrow> database \<Rightarrow> (string \<times> json) list
     \<Rightarrow> ((http_error + catch_response) \<times> database) field" where
  "post_catches env ops db body =
     (case parse_CatchCreate body of
        Rejected \<Rightarrow> Valid (Inl HTTP422, db)
      | Unmodelled \<Rightarrow> Unmodelled
      | Valid catch_data \<Rightarrow> Valid (log_catch env ops db catch_data))"

section \<open>The invariant of the learning tables\<close>

text \<open>Every learned weight is the capped logarithm of its success count plus one.\<close>

definition weights_consistent :: "database \<Rightarrow> bool" where
  "weights_consistent db =
     ((\<forall>r \<in> set (rig_effects db). re_weight r = min 3 (ln (re_success_count r + 1)))
      \<and> (\<forall>r \<in> set (zone_condition_effects db).
            zce_weight r = min 4 (ln (zce_success_count r + 1)))
      \<and> (\<forall>r \<in> set (rig_condition_effects db).
            rce_weight r = min 4 (ln (rce_success_count r + 1))))"

text \<open>
  The stores that the learning updaters can produce from the empty store, whatever happens
  to the other tables in between.
\<close>

inductive learned :: "database \<Rightarrow> bool" where
  learned_start: "learned empty_database"
| learned_other_tables:
    "learned db \<Longrightarrow> rig_effects db' = rig_effects db
       \<Longrightarrow> zone_condition_effects db' = zone_condition_effects db
       \<Longrightarrow> rig_condition_effects db' = rig_condition_effects db \<Longrightarrow> learned db'"
| learned_rig:
    "learned db \<Longrightarrow> learned (snd (update_rig_effect db species zone_id rig_type now))"
| learned_zone_condition:
    "learned db \<Longrightarrow>
       learned (snd (update_zone_condition_effect db species zone_id conds weight_multiplier))"
| learned_rig_condition:
    "learned db \<Longrightarrow>
       learned (snd (update_rig_condition_effect db species rig_type conds weight_multiplier))"

section \<open>Concrete stores and requests\<close>

definition ex_catch :: catch_row where
  "ex_catch =
     \<lparr>c_id = 1, c_timestamp = 0, c_species = ''redfish'', c_zone_id = ''Zone 1'',
      c_size_bucket = None, c_quantity = Some 1, c_kept = False, c_presentation = None,
      c_rig_type = None, c_tide_stage = None, c_current_speed = None,
      c_wind_direction = None\<rparr>"

definition ex_old :: bite_score where
  "ex_old =
     \<lparr>bs_species = ''redfish'', bs_zone_id = ''Zone 1'', bs_score = 40, bs_rating = ''Fair'',
      bs_confidence = ''high'', bs_reason_summary = [], bs_last_updated = 0\<rparr>"

text \<open>A store with \<open>n\<close> redfish catches in Zone 1 and a cached score of 40 for that pair.\<close>

definition ex_db :: "nat \<Rightarrow> database" where
  "ex_db n = empty_database\<lparr>catches := replicate n ex_catch, bite_scores := [ex_old]\<rparr>"

text \<open>The same store with a cached score of 0 and 50 catches.\<close>

definition zero_old :: bite_score where
  "zero_old = ex_old\<lparr>bs_score := 0\<rparr>"

definition zero_db :: database where
  "zero_db = empty_database\<lparr>catches := replicate 50 ex_catch, bite_scores := [zero_old]\<rparr>"

definition ex_scoring :: scoring where
  "ex_scoring db species zone_id now = Inr (60, ''peak season'')"

definition crab_conditions :: conditions where
  "crab_conditions = \<lparr>cond_tide_stage = Some ''high'', cond_clarity = Some ''clean'',
     cond_wind_direction = Some ''N'', cond_current_speed = None\<rparr>"

definition crab_db :: database where
  "crab_db = snd (update_rig_condition_effect
       (snd (update_zone_condition_effect
          (snd (update_rig_effect empty_database ''blue_crab'' ''Zone 1'' (Some ''crab trap'') 0))
          ''blue_crab'' ''Zone 1'' crab_conditions 0.15))
       ''blue_crab'' (Some ''crab trap'') crab_conditions 0.15)"

definition ex_tips :: tip_updater where
  "ex_tips db species zone_id now = Inr (species_zone_tips db)"

definition high_tide_values :: env_values where
  "high_tide_values =
     \<lparr>ev_tide_stage = Some ''high'', ev_wind_direction = Some ''N'', ev_current_speed = None\<rparr>"

definition ex_env :: catch_env where
  "ex_env =
     \<lparr>env_central_to_utc = (\<lambda>t. t + timedelta_hours 6), env_central_now = 0, env_utcnow = 0,
      env_lookup = (\<lambda>t. Inr high_tide_values), env_commit_error = None\<rparr>"

definition crab_request :: CatchCreate where
  "crab_request =
     \<lparr>cc_species = ''blue_crab'', cc_zone_id = ''Zone 1'', cc_distance_from_dock = None,
      cc_depth_estimate = None, cc_structure_type = None, cc_size_length_in = None,
      cc_size_bucket = None, cc_quantity = Some 3, cc_bait_used = None,
      cc_presentation = Some ''crab trap'', cc_predator_seen_recently = False, cc_kept = True,
      cc_notes = None, cc_days_since_last_checked = Some 1, cc_timestamp = None\<rparr>"

definition crab_catch :: catch_row where
  "crab_catch =
     \<lparr>c_id = 1, c_timestamp = timedelta_hours 6, c_species = ''blue_crab'',
      c_zone_id = ''Zone 1'', c_size_bucket = None, c_quantity = Some 3, c_kept = True,
      c_presentation = Some ''crab trap'', c_rig_type = Some ''crab trap'',
      c_tide_stage = Some ''high'', c_current_speed = None, c_wind_direction = Some ''N''\<rparr>"

definition failing_ops :: trigger_ops where
  "failing_ops =
     \<lparr>op_update_rig_effect = (\<lambda>db species zone_id rig_type now. (Inl (Raised ''locked''), db)),
      op_update_zone_condition_effect = (\<lambda>db species zone_id conds w. (Inl (Raised ''locked''), db)),
      op_update_rig_condition_effect = (\<lambda>db species rig_type conds w. (Inl (Raised ''locked''), db)),
      op_recalculate_bite_score = (\<lambda>db species zone_id force now. (Inl (Raised ''locked''), db)),
      op_update_species_zone_tip = (\<lambda>db species zone_id now. (Inl (Raised ''locked''), db))\<rparr>"

definition c3_body :: "(string \<times> json) list" where
  "c3_body =
     [(''species'', JStr ''speckled_trout''), (''zone_id'', JStr ''Zone 3''),
      (''quantity'', JInt 1), (''rig_type'', JStr ''jig'')]"

definition c3_request :: CatchCreate where
  "c3_request =
     \<lparr>cc_species = ''speckled_trout'', cc_zone_id = ''Zone 3'', cc_distance_from_dock = None,
      cc_depth_estimate = None, cc_structure_type = None, cc_size_length_in = None,
      cc_size_bucket = None, cc_quantity = Some 1, cc_bait_used = None,
      cc_presentation = None, cc_predator_seen_recently = False, cc_kept = False,
      cc_notes = None, cc_days_since_last_checked = None, cc_timestamp = None\<rparr>"

definition c3_catch :: catch_row where
  "c3_catch =
     \<lparr>c_id = 1, c_timestamp = timedelta_hours 6, c_species = ''speckled_trout'',
      c_zone_id = ''Zone 3'', c_size_bucket = None, c_quantity = Some 1, c_kept = False,
      c_presentation = None, c_rig_type = None,
      c_tide_stage = Some ''high'', c_current_speed = None, c_wind_direction = Some ''N''\<rparr>"

definition c3_zone_row :: zone_condition_effect where
  "c3_zone_row =
     \<lparr>zce_species = ''speckled_trout'', zce_zone_id = ''Zone 3'', zce_tide_band = ''slack'',
      zce_clarity_band = ''clean'', zce_wind_band = ''neutral'', zce_current_band = ''low'',
      zce_success_count = 1, zce_weight = min 4 (ln 2)\<rparr>"

definition c3_score_row :: bite_score where
  "c3_score_row =
     \<lparr>bs_species = ''speckled_trout'', bs_zone_id = ''Zone 3'', bs_score = 60,
      bs_rating = ''Good'', bs_confidence = ''low'', bs_reason_summary = ''peak season'',
      bs_last_updated = 0\<rparr>"

definition c3_store :: database where
  "c3_store =
     empty_database\<lparr>catches := [c3_catch], zone_condition_effects := [c3_zone_row],
       bite_scores := [c3_score_row]\<rparr>"


definition predator_now :: predator_log where
  "predator_now = \<lparr>pl_zone = ''Zone 1'', pl_time = 0\<rparr>"

definition predator_db :: database where
  "predator_db = empty_database\<lparr>predator_logs := [predator_now]\<rparr>"

definition bait_db :: database where
  "bait_db = empty_database\<lparr>bait_logs := [\<lparr>bl_zone_id = ''Zone 2'', bl_timestamp = 0\<rparr>]\<rparr>"


section \<open>The rows a catch event touches\<close>

text \<open>
  The filters with which the three updaters look up their row for a catch, as
  \<open>catch_triggers\<close> calls them (the clarity passed by \<open>log_catch\<close> is the constant
  \<open>'clean'\<close>), and the success count on record under each filter, 0 when there is no row.
\<close>

definition rig_key :: "catch_row \<Rightarrow> string \<Rightarrow> rig_effect \<Rightarrow> bool" where
  "rig_key catch rt = is_rig_effect_of (c_species catch) (c_zone_id catch) rt"

definition zone_condition_key :: "catch_row \<Rightarrow> zone_condition_effect \<Rightarrow> bool" where
  "zone_condition_key catch =
     is_zone_condition_effect_of (c_species catch) (c_zone_id catch)
       (classify_tide (c_tide_stage catch)) (classify_clarity (Some ''clean''))
       (classify_wind (c_wind_direction catch) (c_species catch))
       (classify_current (c_current_speed catch))"

definition rig_condition_key :: "catch_row \<Rightarrow> string \<Rightarrow> rig_condition_effect \<Rightarrow> bool" where
  "rig_condition_key catch rt =
     is_rig_condition_effect_of (c_species catch) rt (classify_tide (c_tide_stage catch))
       (classify_clarity (Some ''clean''))"

definition rig_count :: "database \<Rightarrow> catch_row \<Rightarrow> string \<Rightarrow> real" where
  "rig_count db catch rt =
     (case find (rig_key catch rt) (rig_effects db) of
        None \<Rightarrow> 0 | Some r \<Rightarrow> re_success_count r)"

definition zone_condition_count :: "database \<Rightarrow> catch_row \<Rightarrow> real" where
  "zone_condition_count db catch =
     (case find (zone_condition_key catch) (zone_condition_effects db) of
        None \<Rightarrow> 0 | Some r \<Rightarrow> zce_success_count r)"

definition rig_condition_count :: "database \<Rightarrow> catch_row \<Rightarrow> string \<Rightarrow> real" where
  "rig_condition_count db catch rt =
     (case find (rig_condition_key catch rt) (rig_condition_effects db) of
        None \<Rightarrow> 0 | Some r \<Rightarrow> rce_success_count r)"

text \<open>A store whose only catch is dated 3072 hours (128 days) after the epoch.\<close>

definition future_db :: database where
  "future_db = empty_database\<lparr>catches := [ex_catch\<lparr>c_timestamp := timedelta_hours 3072\<rparr>]\<rparr>"

section \<open>Helper lemmas\<close>

lemma put_first_find: "P new \<Longrightarrow> find P (put_first P new xs) = Some new"
  by (induction xs) auto

lemma put_first_mem: "new \<in> set (put_first P new xs)"
  by (induction xs) auto

lemma double_eps_bounds: "0 < double_eps" "double_eps \<le> 1 / 4000000000000000"
  by (simp_all add: double_eps_def)

lemma round_half_even_error: "\<bar>real_of_int (round_half_even x) - x\<bar> \<le> 1 / 2"
proof -
  have "real_of_int \<lfloor>x\<rfloor> \<le> x" "x < real_of_int \<lfloor>x\<rfloor> + 1" by linarith+
  then show ?thesis by (auto simp: round_half_even_def Let_def)
qed

lemma double_quantum_pos: "0 < double_quantum x"
  by (simp add: double_quantum_def)

lemma two_powr_floor_log: "0 < a \<Longrightarrow> 2 powr real_of_int \<lfloor>log 2 a\<rfloor> \<le> a"
proof -
  assume a: "0 < a"
  have "2 powr real_of_int \<lfloor>log 2 a\<rfloor> \<le> 2 powr (log 2 a)"
    by (rule powr_mono) simp_all
  also have "\<dots> = a" using a by simp
  finally show ?thesis .
qed

lemma powr_m52: "(2::real) powr (- 52) = 1 / 2 ^ 52"
  by (simp add: powr_neg_numeral)

lemma double_quantum_bound:
  assumes "x \<noteq> 0" "\<bar>x\<bar> \<le> B" "1 \<le> B"
  shows "double_quantum x \<le> B / 2 ^ 52"
proof (cases "\<lfloor>log 2 \<bar>x\<bar>\<rfloor> \<le> - 1022")
  case True
  then have "max \<lfloor>log 2 \<bar>x\<bar>\<rfloor> (- 1022) = - 1022" by simp
  then have "double_quantum x = 2 powr (- 1074)" unfolding double_quantum_def by simp
  also have "\<dots> \<le> 2 powr (- 52)" by (rule powr_mono) simp_all
  also have "\<dots> = 1 / 2 ^ 52" by (rule powr_m52)
  also have "\<dots> \<le> B / 2 ^ 52" using assms by (simp add: divide_right_mono)
  finally show ?thesis .
next
  case False
  then have big: "max \<lfloor>log 2 \<bar>x\<bar>\<rfloor> (- 1022) = \<lfloor>log 2 \<bar>x\<bar>\<rfloor>" by simp
  have "double_quantum x = 2 powr real_of_int \<lfloor>log 2 \<bar>x\<bar>\<rfloor> * 2 powr (- 52)"
    unfolding double_quantum_def big by (simp add: powr_diff powr_minus field_simps)
  also have "\<dots> \<le> \<bar>x\<bar> * 2 powr (- 52)"
    using two_powr_floor_log[of "\<bar>x\<bar>"] assms(1) by (intro mult_right_mono) simp_all
  also have "\<dots> = \<bar>x\<bar> / 2 ^ 52" by (simp add: powr_m52)
  also have "\<dots> \<le> B / 2 ^ 52" using assms by (simp add: divide_right_mono)
  finally show ?thesis .
qed

lemma fl_error: "\<bar>fl x - x\<bar> \<le> double_quantum x / 2"
proof (cases "x = 0")
  case True
  then show ?thesis using double_quantum_pos[of x] by (simp add: fl_def)
next
  case False
  define q where "q = double_quantum x"
  have q: "0 < q" by (simp add: q_def double_quantum_pos)
  have "fl x - x = (real_of_int (round_half_even (x / q)) - x / q) * q"
    using False q by (simp add: fl_def q_def field_simps)
  then have "\<bar>fl x - x\<bar> = \<bar>real_of_int (round_half_even (x / q)) - x / q\<bar> * q"
    using q by (simp add: abs_mult)
  also have "\<dots> \<le> 1 / 2 * q"
    using round_half_even_error[of "x / q"] q by (intro mult_right_mono) simp_all
  finally show ?thesis by (simp add: q_def)
qed

lemma fl_close:
  assumes "\<bar>x\<bar> \<le> B" "1 \<le> B"
  shows "\<bar>fl x - x\<bar> \<le> B * double_eps"
proof (cases "x = 0")
  case True
  then show ?thesis using assms double_eps_bounds(1) by (simp add: fl_def)
next
  case False
  have "\<bar>fl x - x\<bar> \<le> double_quantum x / 2" by (rule fl_error)
  also have "\<dots> \<le> double_quantum x" using double_quantum_pos[of x] by simp
  also have "\<dots> \<le> B / 2 ^ 52" using False assms by (rule double_quantum_bound)
  finally show ?thesis by (simp add: double_eps_def)
qed

lemma floor_log2_eq:
  assumes "2 powr real_of_int e \<le> a" "a < 2 powr (real_of_int e + 1)"
  shows "\<lfloor>log 2 a\<rfloor> = e"
proof -
  have a: "0 < a" using assms(1) by (smt (verit) powr_gt_zero)
  have "real_of_int e \<le> log 2 a" using assms(1) a by (simp add: le_log_iff)
  moreover have "log 2 a < real_of_int e + 1" using assms(2) a by (simp add: log_less_iff)
  ultimately show ?thesis by linarith
qed

lemma fl_at:
  assumes "2 powr real_of_int e \<le> \<bar>x\<bar>" "\<bar>x\<bar> < 2 powr (real_of_int e + 1)" "- 1022 \<le> e"
  shows "fl x = real_of_int (round_half_even (x / 2 powr (real_of_int e - 52)))
                  * 2 powr (real_of_int e - 52)"
proof -
  have "\<lfloor>log 2 \<bar>x\<bar>\<rfloor> = e" using assms(1,2) by (rule floor_log2_eq)
  then have q: "double_quantum x = 2 powr (real_of_int e - 52)"
    using assms(3) by (simp add: double_quantum_def max_def)
  have "x \<noteq> 0" using assms(1) by (smt (verit) powr_gt_zero)
  then show ?thesis by (simp add: fl_def q)
qed

lemma fl_below_one:
  assumes "1 / 2 ^ n \<le> \<bar>x\<bar>" "\<bar>x\<bar> < 2 / 2 ^ n" "n \<le> 1022"
  shows "fl x = real_of_int (round_half_even (x * 2 ^ (n + 52))) / 2 ^ (n + 52)"
proof -
  have p: "2 powr real_of_int (- int n) = 1 / 2 ^ n"
    by (simp add: powr_minus powr_realpow divide_inverse)
  have "(2::real) powr (real_of_int (- int n) + 1) = 2 powr real_of_int (- int n) * 2 powr 1"
    by (rule powr_add)
  then have p1: "2 powr (real_of_int (- int n) + 1) = 2 / 2 ^ n"
    unfolding p by simp
  have q: "2 powr (real_of_int (- int n) - 52) = 1 / 2 ^ (n + 52)"
  proof -
    have "real_of_int (- int n) - 52 = - real (n + 52)" by simp
    then show ?thesis by (simp only: powr_minus powr_realpow) (simp add: divide_inverse)
  qed
  have "- 1022 \<le> - int n" using assms(3) by simp
  from fl_at[of "- int n" x, unfolded p p1 q, OF assms(1,2) this]
  show ?thesis by simp
qed

lemma fl_above_one:
  assumes "2 ^ n \<le> \<bar>x\<bar>" "\<bar>x\<bar> < 2 * 2 ^ n" "n \<le> 52"
  shows "fl x = real_of_int (round_half_even (x * 2 ^ (52 - n))) / 2 ^ (52 - n)"
proof -
  have p: "2 powr real_of_int (int n) = 2 ^ n"
    by (simp add: powr_realpow)
  have p1: "2 powr (real_of_int (int n) + 1) = 2 * 2 ^ n"
    by (simp add: powr_add powr_realpow)
  have q: "2 powr (real_of_int (int n) - 52) = 1 / 2 ^ (52 - n)"
  proof -
    have "real_of_int (int n) - 52 = - real (52 - n)" using assms(3) by simp
    then show ?thesis by (simp only: powr_minus powr_realpow) (simp add: divide_inverse)
  qed
  have "- 1022 \<le> int n" by simp
  from fl_at[of "int n" x, unfolded p p1 q, OF assms(1,2) this]
  show ?thesis by simp
qed

lemma fl_tenth: "fl (1 / 10) = 7205759403792794 / 2 ^ 56"
  using fl_below_one[of 4 "1 / 10"] by (simp add: round_half_even_def Let_def)

lemma fl_twentieth: "fl (1 / 20) = 7205759403792794 / 2 ^ 57"
  using fl_below_one[of 5 "1 / 20"] by (simp add: round_half_even_def Let_def)

lemma fl_w50: "fl (7205759403792794 / 2 ^ 56 + 7205759403792794 / 2 ^ 57) = 5404319552844596 / 2 ^ 55"
  using fl_below_one[of 3 "7205759403792794 / 2 ^ 56 + 7205759403792794 / 2 ^ 57"]
  by (simp add: round_half_even_def Let_def)

lemma fl_60w: "fl (60 * (5404319552844596 / 2 ^ 55)) = 5066549580791809 / 2 ^ 49"
  using fl_above_one[of 3 "60 * (5404319552844596 / 2 ^ 55)"]
  by (simp add: round_half_even_def Let_def)

lemma fl_nine: "fl (5066549580791809 / 2 ^ 49) = 5066549580791809 / 2 ^ 49"
  using fl_above_one[of 3 "5066549580791809 / 2 ^ 49"]
  by (simp add: round_half_even_def Let_def)

lemma round_half_even_of_int: "round_half_even (real_of_int m) = m"
  by (simp add: round_half_even_def)

lemma fl_of_int:
  assumes "\<bar>k\<bar> < 2 ^ 53"
  shows "fl (real_of_int k) = real_of_int k"
proof (cases "k = 0")
  case True
  then show ?thesis by (simp add: fl_def)
next
  case False
  define e where "e = \<lfloor>log 2 \<bar>real_of_int k\<bar>\<rfloor>"
  have k1: "1 \<le> \<bar>real_of_int k\<bar>" using False by (simp flip: of_int_abs)
  have "0 \<le> log 2 \<bar>real_of_int k\<bar>" using k1 by simp
  then have e0: "0 \<le> e" by (simp add: e_def)
  have "\<bar>real_of_int k\<bar> < 2 ^ 53"
    using assms by (metis of_int_abs of_int_less_numeral_power_cancel_iff)
  then have "log 2 \<bar>real_of_int k\<bar> < 53"
    using k1 by (simp add: log_less_iff powr_numeral del: of_int_abs)
  then have e52: "e \<le> 52" unfolding e_def by linarith
  define n where "n = nat (52 - e)"
  have q: "double_quantum (real_of_int k) = 1 / 2 ^ n"
  proof -
    have "max e (- 1022) = e" using e0 by simp
    moreover have "real_of_int e - 52 = - real n" using e52 by (simp add: n_def)
    ultimately have "double_quantum (real_of_int k) = 2 powr (- real n)"
      by (simp add: double_quantum_def e_def)
    then show ?thesis by (simp add: powr_minus powr_realpow divide_inverse)
  qed
  have "real_of_int k / (1 / 2 ^ n) = real_of_int (k * 2 ^ n)" by simp
  then have "round_half_even (real_of_int k / (1 / 2 ^ n)) = k * 2 ^ n"
    by (simp only: round_half_even_of_int)
  then show ?thesis using False by (simp add: fl_def q)
qed

lemma smoothing_weight_close:
  assumes "50 \<le> N"
  shows "\<bar>get_smoothing_weight N - spec_smoothing_weight N\<bar> \<le> 3 * double_eps"
proof -
  define k where "k = 100 - min N 100"
  have k: "0 \<le> k" "k \<le> 50" using assms by (simp_all add: k_def)
  then have "\<bar>k\<bar> < 2 ^ 53" by simp
  then have conv: "fl (real_of_int k) = real_of_int k" by (rule fl_of_int)
  define a where "a = fl (real_of_int k / 1000)"
  define c where "c = fl (1 / 10)"
  have w: "get_smoothing_weight N = fl (c + a)"
    using assms by (simp add: get_smoothing_weight_def k_def[symmetric] conv a_def c_def)
  have w0: "spec_smoothing_weight N = 1 / 10 + real_of_int k / 1000"
    using assms by (simp add: spec_smoothing_weight_def k_def)
  have kr: "0 \<le> real_of_int k / 1000" "real_of_int k / 1000 \<le> 1 / 20" using k by simp_all
  have ea: "\<bar>a - real_of_int k / 1000\<bar> \<le> double_eps"
    unfolding a_def using fl_close[of "real_of_int k / 1000" 1] kr by simp
  have ec: "\<bar>c - 1 / 10\<bar> \<le> double_eps"
    unfolding c_def using fl_close[of "1 / 10" 1] by simp
  have "\<bar>c + a\<bar> \<le> 1" using ea ec kr using double_eps_bounds by linarith
  then have es: "\<bar>fl (c + a) - (c + a)\<bar> \<le> double_eps"
    using fl_close[of "c + a" 1] by simp
  show ?thesis unfolding w w0 using ea ec es using double_eps_bounds by linarith
qed

lemma spec_smoothing_weight_high_data:
  assumes "50 \<le> N"
  shows "1 / 10 \<le> spec_smoothing_weight N" and "spec_smoothing_weight N \<le> 15 / 100"
  using assms by (auto simp: spec_smoothing_weight_def min_def)

lemma scaled_close:
  fixes a x y :: real
  assumes "\<bar>a\<bar> \<le> A" "\<bar>x - y\<bar> \<le> d"
  shows "\<bar>a * x - a * y\<bar> \<le> A * d"
proof -
  have "\<bar>a * x - a * y\<bar> = \<bar>a\<bar> * \<bar>x - y\<bar>" by (simp add: abs_mult flip: right_diff_distrib)
  also have "\<dots> \<le> A * d" using assms by (intro mult_mono) simp_all
  finally show ?thesis .
qed

lemma smoothing_step_close:
  fixes S R w w0 :: real
  assumes S: "0 \<le> S" "S \<le> 100" and R: "0 \<le> R" "R \<le> 100"
    and w: "\<bar>w - w0\<bar> \<le> 3 * double_eps" and w0: "1 / 10 \<le> w0" "w0 \<le> 15 / 100"
  shows "\<bar>fl (fl (S * fl (1 - w)) + fl (R * w)) - (S * (1 - w0) + R * w0)\<bar> \<le> 1200 * double_eps"
proof -
  define t1 where "t1 = fl (1 - w)"
  define t2 where "t2 = fl (S * t1)"
  define t3 where "t3 = fl (R * w)"
  have wr: "0 \<le> w" "w \<le> 1" using w w0 using double_eps_bounds by linarith+
  then have "\<bar>1 - w\<bar> \<le> 1" by simp
  then have "\<bar>t1 - (1 - w)\<bar> \<le> double_eps" unfolding t1_def using fl_close[of "1 - w" 1] by simp
  then have e1: "\<bar>t1 - (1 - w0)\<bar> \<le> 4 * double_eps" using w using double_eps_bounds by linarith
  then have t1r: "0 \<le> t1" "t1 \<le> 1" using w0 using double_eps_bounds by linarith+
  have Sa: "\<bar>S\<bar> \<le> 100" and Ra: "\<bar>R\<bar> \<le> 100" using S R by simp_all
  have "\<bar>S * t1\<bar> \<le> 100"
    using S t1r mult_mono[of S 100 t1 1] by (simp add: abs_mult)
  then have "\<bar>t2 - S * t1\<bar> \<le> 100 * double_eps" unfolding t2_def using fl_close[of "S * t1" 100] by simp
  moreover have "\<bar>S * t1 - S * (1 - w0)\<bar> \<le> 100 * (4 * double_eps)" using Sa e1 by (rule scaled_close)
  ultimately have e2: "\<bar>t2 - S * (1 - w0)\<bar> \<le> 500 * double_eps" using double_eps_bounds by linarith
  have "\<bar>R * w\<bar> \<le> 100"
    using R wr mult_mono[of R 100 w 1] by (simp add: abs_mult)
  then have "\<bar>t3 - R * w\<bar> \<le> 100 * double_eps" unfolding t3_def using fl_close[of "R * w" 100] by simp
  moreover have "\<bar>R * w - R * w0\<bar> \<le> 100 * (3 * double_eps)" using Ra w by (rule scaled_close)
  ultimately have e3: "\<bar>t3 - R * w0\<bar> \<le> 400 * double_eps" using double_eps_bounds by linarith
  have "0 \<le> S * (1 - w0)" "S * (1 - w0) \<le> 100"
    using S w0 mult_mono[of S 100 "1 - w0" 1] by simp_all
  moreover have "0 \<le> R * w0" "R * w0 \<le> 100"
    using R w0 mult_mono[of R 100 w0 1] by simp_all
  ultimately have "\<bar>t2 + t3\<bar> \<le> 201" using e2 e3 using double_eps_bounds by linarith
  then have e4: "\<bar>fl (t2 + t3) - (t2 + t3)\<bar> \<le> 201 * double_eps"
    using fl_close[of "t2 + t3" 201] by simp
  have "\<bar>fl (t2 + t3) - (A + B)\<bar> \<le> 1200 * double_eps"
    if "\<bar>t2 - A\<bar> \<le> 500 * double_eps" "\<bar>t3 - B\<bar> \<le> 400 * double_eps" for A B :: real
    using that e4 double_eps_bounds by linarith
  from this[OF e2 e3] show ?thesis
    unfolding t1_def[symmetric] t2_def[symmetric] t3_def[symmetric] .
qed

lemma clamp_close:
  fixes x y :: real
  assumes "0 \<le> y" "y \<le> 100"
  shows "\<bar>max 0 (min 100 x) - y\<bar> \<le> \<bar>x - y\<bar>"
  using assms by (auto simp: max_def min_def)

lemma weight_at_50: "get_smoothing_weight 50 = 5404319552844596 / 2 ^ 55"
proof -
  have "get_smoothing_weight 50 = fl (fl (1 / 10) + fl (1 / 20))"
    using fl_of_int[of 50] by (simp add: get_smoothing_weight_def)
  then show ?thesis unfolding fl_tenth fl_twentieth fl_w50 .
qed

lemma smoothed_from_zero:
  "fl (fl (0 * fl (1 - get_smoothing_weight 50)) + fl (60 * get_smoothing_weight 50))
     = 5066549580791809 / 2 ^ 49"
proof -
  have z: "fl (0 * y) = 0" for y by (simp add: fl_def)
  show ?thesis unfolding z weight_at_50 fl_60w add_0 by (rule fl_nine)
qed

lemma zero_db_recalc:
  "map bs_score (bite_scores (snd (recalculate_bite_score ex_scoring zero_db ''redfish''
                                     ''Zone 1'' False 7)))
     = [5066549580791809 / 2 ^ 49]"
proof -
  have cnt: "count_catches zero_db ''redfish'' ''Zone 1'' = 50"
    by (simp add: count_catches_def zero_db_def ex_catch_def empty_database_def)
  have tab: "bite_scores zero_db = [zero_old]"
    by (simp add: zero_db_def empty_database_def)
  have key: "is_bite_score_of ''redfish'' ''Zone 1'' zero_old" "bs_score zero_old = 0"
    by (simp_all add: is_bite_score_of_def zero_old_def ex_old_def)
  have clamp: "max 0 (min 100 (5066549580791809 / 2 ^ 49)) = (5066549580791809 / 2 ^ 49 :: real)"
    by simp
  show ?thesis
    unfolding recalculate_bite_score_def Let_def cnt tab
    by (simp add: ex_scoring_def key smoothed_from_zero clamp del: mult_zero_left)
qed

lemma put_first_set: "set (put_first P new xs) \<subseteq> insert new (set xs)"
  by (induction xs) auto

lemma put_first_all: "Q new \<Longrightarrow> \<forall>x \<in> set xs. Q x \<Longrightarrow> \<forall>x \<in> set (put_first P new xs). Q x"
  using put_first_set[of P new xs] by auto

lemma py_log_Inr: "py_log x = Inr l \<Longrightarrow> l = ln x"
  by (simp add: py_log_def split: if_splits)

lemma update_rig_effect_cases:
  "snd (update_rig_effect db species zone_id rig_type now) = db
   \<or> (\<exists>P row. snd (update_rig_effect db species zone_id rig_type now)
                 = db\<lparr>rig_effects := put_first P row (rig_effects db)\<rparr>
              \<and> re_weight row = min 3 (ln (re_success_count row + 1)))"
proof (cases rig_type)
  case None
  then show ?thesis by (simp add: update_rig_effect_def)
next
  case (Some rt)
  show ?thesis
  proof (cases "rt = [] \<or> rt = ''unknown''")
    case True
    with Some show ?thesis by (simp add: update_rig_effect_def)
  next
    case False
    define row0 where "row0 =
      (case find (is_rig_effect_of species zone_id rt) (rig_effects db) of
         Some r \<Rightarrow> r\<lparr>re_success_count := re_success_count r + 1, re_last_used := Some now\<rparr>
       | None \<Rightarrow> \<lparr>re_species = species, re_zone_id = zone_id, re_rig_type = rt,
                   re_success_count = 1, re_weight = 0, re_last_used = Some now\<rparr>)"
    have run: "update_rig_effect db species zone_id rig_type now =
      (case py_log (re_success_count row0 + 1) of
         Inl e \<Rightarrow> (Inl e, db)
       | Inr l \<Rightarrow> (Inr (Some (row0\<lparr>re_weight := min 3 l\<rparr>)),
            db\<lparr>rig_effects := put_first (is_rig_effect_of species zone_id rt)
                 (row0\<lparr>re_weight := min 3 l\<rparr>) (rig_effects db)\<rparr>))"
      unfolding update_rig_effect_def row0_def Let_def using Some False by simp
    show ?thesis
    proof (cases "py_log (re_success_count row0 + 1)")
      case (Inl e)
      with run show ?thesis by simp
    next
      case (Inr l)
      then have l: "l = ln (re_success_count row0 + 1)" by (rule py_log_Inr)
      define row where "row = row0\<lparr>re_weight := min 3 l\<rparr>"
      have w: "re_weight row = min 3 (ln (re_success_count row + 1))"
        by (simp add: row_def l)
      have "snd (update_rig_effect db species zone_id rig_type now)
          = db\<lparr>rig_effects := put_first (is_rig_effect_of species zone_id rt) row (rig_effects db)\<rparr>"
        by (simp add: run Inr row_def)
      with w show ?thesis by blast
    qed
  qed
qed

lemma update_rig_effect_consistent:
  assumes "weights_consistent db"
  shows "weights_consistent (snd (update_rig_effect db species zone_id rig_type now))"
proof -
  from update_rig_effect_cases[of db species zone_id rig_type now]
  show ?thesis
  proof
    assume "snd (update_rig_effect db species zone_id rig_type now) = db"
    with assms show ?thesis by simp
  next
    assume "\<exists>P row. snd (update_rig_effect db species zone_id rig_type now)
                 = db\<lparr>rig_effects := put_first P row (rig_effects db)\<rparr>
              \<and> re_weight row = min 3 (ln (re_success_count row + 1))"
    then obtain P row where
      s: "snd (update_rig_effect db species zone_id rig_type now)
                 = db\<lparr>rig_effects := put_first P row (rig_effects db)\<rparr>"
      and w: "re_weight row = min 3 (ln (re_success_count row + 1))" by blast
    have "\<forall>r \<in> set (put_first P row (rig_effects db)).
            re_weight r = min 3 (ln (re_success_count r + 1))"
      using w assms by (intro put_first_all) (simp_all add: weights_consistent_def)
    with assms show ?thesis unfolding s by (simp add: weights_consistent_def)
  qed
qed

lemma update_zone_condition_effect_cases:
  "snd (update_zone_condition_effect db species zone_id conds weight_multiplier) = db
   \<or> (\<exists>P row. snd (update_zone_condition_effect db species zone_id conds weight_multiplier)
                 = db\<lparr>zone_condition_effects := put_first P row (zone_condition_effects db)\<rparr>
              \<and> zce_weight row = min 4 (ln (zce_success_count row + 1)))"
proof (cases "classify_tide (cond_tide_stage conds) = ''unknown''")
  case True
  then show ?thesis by (simp add: update_zone_condition_effect_def)
next
  case False
  define same where "same = is_zone_condition_effect_of species zone_id
      (classify_tide (cond_tide_stage conds)) (classify_clarity (cond_clarity conds))
      (classify_wind (cond_wind_direction conds) species)
      (classify_current (cond_current_speed conds))"
  define row0 where "row0 =
    (case find same (zone_condition_effects db) of
       Some r \<Rightarrow> r\<lparr>zce_success_count := zce_success_count r + weight_multiplier\<rparr>
     | None \<Rightarrow>
         \<lparr>zce_species = species, zce_zone_id = zone_id,
          zce_tide_band = classify_tide (cond_tide_stage conds),
          zce_clarity_band = classify_clarity (cond_clarity conds),
          zce_wind_band = classify_wind (cond_wind_direction conds) species,
          zce_current_band = classify_current (cond_current_speed conds),
          zce_success_count = weight_multiplier, zce_weight = 0\<rparr>)"
  have run: "update_zone_condition_effect db species zone_id conds weight_multiplier =
    (case py_log (zce_success_count row0 + 1) of
       Inl e \<Rightarrow> (Inl e, db)
     | Inr l \<Rightarrow> (Inr (Some (row0\<lparr>zce_weight := min 4 l\<rparr>)),
          db\<lparr>zone_condition_effects :=
               put_first same (row0\<lparr>zce_weight := min 4 l\<rparr>) (zone_condition_effects db)\<rparr>))"
    unfolding update_zone_condition_effect_def row0_def same_def Let_def using False by simp
  show ?thesis
  proof (cases "py_log (zce_success_count row0 + 1)")
    case (Inl e)
    with run show ?thesis by simp
  next
    case (Inr l)
    then have l: "l = ln (zce_success_count row0 + 1)" by (rule py_log_Inr)
    define row where "row = row0\<lparr>zce_weight := min 4 l\<rparr>"
    have w: "zce_weight row = min 4 (ln (zce_success_count row + 1))"
      by (simp add: row_def l)
    have "snd (update_zone_condition_effect db species zone_id conds weight_multiplier)
        = db\<lparr>zone_condition_effects := put_first same row (zone_condition_effects db)\<rparr>"
      by (simp add: run Inr row_def)
    with w show ?thesis by blast
  qed
qed

lemma update_rig_condition_effect_cases:
  "snd (update_rig_condition_effect db species rig_type conds weight_multiplier) = db
   \<or> (\<exists>P row. snd (update_rig_condition_effect db species rig_type conds weight_multiplier)
                 = db\<lparr>rig_condition_effects := put_first P row (rig_condition_effects db)\<rparr>
              \<and> rce_weight row = min 4 (ln (rce_success_count row + 1)))"
proof (cases rig_type)
  case None
  then show ?thesis by (simp add: update_rig_condition_effect_def)
next
  case (Some rt)
  show ?thesis
  proof (cases "rt = [] \<or> rt = ''unknown'' \<or> classify_tide (cond_tide_stage conds) = ''unknown''")
    case True
    with Some show ?thesis by (auto simp: update_rig_condition_effect_def)
  next
    case False
    define same where "same = is_rig_condition_effect_of species rt
        (classify_tide (cond_tide_stage conds)) (classify_clarity (cond_clarity conds))"
    define row0 where "row0 =
      (case find same (rig_condition_effects db) of
         Some r \<Rightarrow> r\<lparr>rce_success_count := rce_success_count r + weight_multiplier\<rparr>
       | None \<Rightarrow>
           \<lparr>rce_species = species, rce_rig_type = rt,
            rce_tide_band = classify_tide (cond_tide_stage conds),
            rce_clarity_band = classify_clarity (cond_clarity conds),
            rce_success_count = weight_multiplier, rce_weight = 0\<rparr>)"
    have run: "update_rig_condition_effect db species rig_type conds weight_multiplier =
      (case py_log (rce_success_count row0 + 1) of
         Inl e \<Rightarrow> (Inl e, db)
       | Inr l \<Rightarrow> (Inr (Some (row0\<lparr>rce_weight := min 4 l\<rparr>)),
            db\<lparr>rig_condition_effects :=
                 put_first same (row0\<lparr>rce_weight := min 4 l\<rparr>) (rig_condition_effects db)\<rparr>))"
      unfolding update_rig_condition_effect_def row0_def same_def Let_def
      using Some False by simp
    show ?thesis
    proof (cases "py_log (rce_success_count row0 + 1)")
      case (Inl e)
      with run show ?thesis by simp
    next
      case (Inr l)
      then have l: "l = ln (rce_success_count row0 + 1)" by (rule py_log_Inr)
      define row where "row = row0\<lparr>rce_weight := min 4 l\<rparr>"
      have w: "rce_weight row = min 4 (ln (rce_success_count row + 1))"
        by (simp add: row_def l)
      have "snd (update_rig_condition_effect db species rig_type conds weight_multiplier)
          = db\<lparr>rig_condition_effects := put_first same row (rig_condition_effects db)\<rparr>"
        by (simp add: run Inr row_def)
      with w show ?thesis by blast
    qed
  qed
qed

lemma update_zone_condition_effect_consistent:
  assumes "weights_consistent db"
  shows "weights_consistent
           (snd (update_zone_condition_effect db species zone_id conds weight_multiplier))"
proof -
  from update_zone_condition_effect_cases[of db species zone_id conds weight_multiplier]
  show ?thesis
  proof
    assume "snd (update_zone_condition_effect db species zone_id conds weight_multiplier) = db"
    with assms show ?thesis by simp
  next
    assume "\<exists>P row. snd (update_zone_condition_effect db species zone_id conds weight_multiplier)
                 = db\<lparr>zone_condition_effects := put_first P row (zone_condition_effects db)\<rparr>
              \<and> zce_weight row = min 4 (ln (zce_success_count row + 1))"
    then obtain P row where
      s: "snd (update_zone_condition_effect db species zone_id conds weight_multiplier)
                 = db\<lparr>zone_condition_effects := put_first P row (zone_condition_effects db)\<rparr>"
      and w: "zce_weight row = min 4 (ln (zce_success_count row + 1))" by blast
    have "\<forall>r \<in> set (put_first P row (zone_condition_effects db)).
            zce_weight r = min 4 (ln (zce_success_count r + 1))"
      using w assms by (intro put_first_all) (simp_all add: weights_consistent_def)
    with assms show ?thesis unfolding s by (simp add: weights_consistent_def)
  qed
qed

lemma update_rig_condition_effect_consistent:
  assumes "weights_consistent db"
  shows "weights_consistent
           (snd (update_rig_condition_effect db species rig_type conds weight_multiplier))"
proof -
  from update_rig_condition_effect_cases[of db species rig_type conds weight_multiplier]
  show ?thesis
  proof
    assume "snd (update_rig_condition_effect db species rig_type conds weight_multiplier) = db"
    with assms show ?thesis by simp
  next
    assume "\<exists>P row. snd (update_rig_condition_effect db species rig_type conds weight_multiplier)
                 = db\<lparr>rig_condition_effects := put_first P row (rig_condition_effects db)\<rparr>
              \<and> rce_weight row = min 4 (ln (rce_success_count row + 1))"
    then obtain P row where
      s: "snd (update_rig_condition_effect db species rig_type conds weight_multiplier)
                 = db\<lparr>rig_condition_effects := put_first P row (rig_condition_effects db)\<rparr>"
      and w: "rce_weight row = min 4 (ln (rce_success_count row + 1))" by blast
    have "\<forall>r \<in> set (put_first P row (rig_condition_effects db)).
            rce_weight r = min 4 (ln (rce_success_count r + 1))"
      using w assms by (intro put_first_all) (simp_all add: weights_consistent_def)
    with assms show ?thesis unfolding s by (simp add: weights_consistent_def)
  qed
qed

lemma tide_high: "classify_tide (Some ''high'') = ''slack''"
  by (simp add: classify_tide_def truthy_def lower_def lower_char_def)

lemma clarity_clean: "classify_clarity (Some ''clean'') = ''clean''"
  by (simp add: classify_clarity_def truthy_def lower_def lower_char_def)

lemma step1: "snd (update_rig_effect empty_database ''blue_crab'' ''Zone 1'' (Some ''crab trap'') 0)
   = empty_database\<lparr>rig_effects := [\<lparr>re_species = ''blue_crab'', re_zone_id = ''Zone 1'',
        re_rig_type = ''crab trap'', re_success_count = 1, re_weight = min 3 (ln 2),
        re_last_used = Some 0\<rparr>]\<rparr>"
  by (simp add: update_rig_effect_def empty_database_def py_log_def Let_def)

lemma crab_db_value:
  "map (\<lambda>r. (rce_success_count r, rce_weight r)) (rig_condition_effects crab_db)
       = [(0.15, min 4 (ln 1.15))]"
  unfolding crab_db_def step1
  by (simp add: update_zone_condition_effect_def
      update_rig_condition_effect_def empty_database_def py_log_def crab_conditions_def
      tide_high clarity_clean classify_wind_def classify_current_def
      wind_preferences_def truthy_def Let_def)

lemma then_step_frame:
  assumes "\<And>d. g (snd (f d)) = g d"
  shows "g (snd (then_step r f)) = g (snd r)"
proof (cases r)
  case (Pair a d)
  then show ?thesis using assms by (cases a) (simp_all add: then_step_def)
qed

lemma recalculate_bite_score_cases:
  "snd (recalculate_bite_score scoring db species zone_id force_recalc now) = db
   \<or> (\<exists>table. snd (recalculate_bite_score scoring db species zone_id force_recalc now)
                 = db\<lparr>bite_scores := table\<rparr>)"
proof (cases "scoring db species zone_id now")
  case (Inl e)
  then show ?thesis by (simp add: recalculate_bite_score_def)
next
  case (Inr p)
  obtain R reason where "p = (R, reason)" by (cases p)
  with Inr show ?thesis
    unfolding recalculate_bite_score_def Let_def by (intro disjI2 exI) simp
qed

lemma update_species_zone_tip_cases:
  "snd (update_species_zone_tip tips db species zone_id now) = db
   \<or> (\<exists>table. snd (update_species_zone_tip tips db species zone_id now)
                 = db\<lparr>species_zone_tips := table\<rparr>)"
proof (cases "tips db species zone_id now")
  case (Inl e)
  then show ?thesis by (simp add: update_species_zone_tip_def)
next
  case (Inr table)
  then show ?thesis unfolding update_species_zone_tip_def by (intro disjI2 exI) simp
qed

lemma frame_rig_effects:
  "rig_effects (snd (update_zone_condition_effect db species zone_id conds w)) = rig_effects db"
  "rig_effects (snd (update_rig_condition_effect db species rig_type conds w)) = rig_effects db"
  "rig_effects (snd (recalculate_bite_score scoring db species zone_id force_recalc now)) = rig_effects db"
  "rig_effects (snd (update_species_zone_tip tips db species zone_id now)) = rig_effects db"
  using update_zone_condition_effect_cases[of db species zone_id conds w]
    update_rig_condition_effect_cases[of db species rig_type conds w]
    recalculate_bite_score_cases[of scoring db species zone_id force_recalc now]
    update_species_zone_tip_cases[of tips db species zone_id now]
  by auto

lemma frame_catches:
  "catches (snd (update_rig_effect db species zone_id rig_type now)) = catches db"
  "catches (snd (update_zone_condition_effect db species zone_id conds w)) = catches db"
  "catches (snd (update_rig_condition_effect db species rig_type conds w)) = catches db"
  "catches (snd (recalculate_bite_score scoring db species zone_id force_recalc now)) = catches db"
  "catches (snd (update_species_zone_tip tips db species zone_id now)) = catches db"
  using update_rig_effect_cases[of db species zone_id rig_type now]
    update_zone_condition_effect_cases[of db species zone_id conds w]
    update_rig_condition_effect_cases[of db species rig_type conds w]
    recalculate_bite_score_cases[of scoring db species zone_id force_recalc now]
    update_species_zone_tip_cases[of tips db species zone_id now]
  by auto

lemma triggers_rig_effects:
  "rig_effects (snd (catch_triggers env (bayscan_ops scoring tips) db catch)) =
   rig_effects (snd (if truthy (c_rig_type catch)
                     then update_rig_effect db (c_species catch) (c_zone_id catch)
                            (c_rig_type catch) (env_utcnow env)
                     else (Inr None, db)))"
  unfolding catch_triggers_def bayscan_ops_def Let_def
  by (simp add: then_step_frame frame_rig_effects)

lemma triggers_catches:
  "catches (snd (catch_triggers env (bayscan_ops scoring tips) db catch)) = catches db"
  unfolding catch_triggers_def bayscan_ops_def Let_def
  by (simp add: then_step_frame frame_catches)

lemma persist_catch_Inr:
  assumes "persist_catch env db catch_data = Inr (catch, db1)"
  shows "db1 = db\<lparr>catches := catches db @ [catch]\<rparr>"
    and "c_rig_type catch = cc_presentation catch_data"
    and "c_species catch = cc_species catch_data"
    and "c_zone_id catch = cc_zone_id catch_data"
    and "c_id catch = next_catch_id db"
  using assms
  by (auto simp: persist_catch_def Let_def split: sum.splits option.splits if_splits)

lemma crab_persist:
  "persist_catch ex_env empty_database crab_request
     = Inr (crab_catch, empty_database\<lparr>catches := [crab_catch]\<rparr>)"
  by (simp add: persist_catch_def ex_env_def crab_request_def crab_catch_def
      empty_database_def high_tide_values_def next_catch_id_def fits_integer_column_def Let_def)

lemma log_catch_after_commit:
  assumes "persist_catch env db catch_data = Inr (catch, db1)"
  shows "log_catch env ops db catch_data
           = (Inr (success_response catch), snd (catch_triggers env ops db1 catch))"
proof (cases "catch_triggers env ops db1 catch")
  case (Pair a d)
  with assms show ?thesis by (cases a) (simp_all add: log_catch_def)
qed

lemma crab_trap_weight: "condition_weight ''blue_crab'' (Some ''crab trap'') = 0.15"
  by (simp add: condition_weight_def is_crab_trap_def truthy_def lower_def lower_char_def)

lemma crab_rig_effects:
  "rig_effects (snd (log_catch ex_env (bayscan_ops ex_scoring ex_tips) empty_database crab_request))
     = [\<lparr>re_species = ''blue_crab'', re_zone_id = ''Zone 1'', re_rig_type = ''crab trap'',
         re_success_count = 1, re_weight = min 3 (ln 2), re_last_used = Some 0\<rparr>]"
  unfolding log_catch_after_commit[OF crab_persist] snd_conv triggers_rig_effects
  by (simp add: crab_catch_def truthy_def update_rig_effect_def empty_database_def py_log_def
      ex_env_def Let_def)

lemma c3_parse: "parse_CatchCreate c3_body = Valid c3_request"
  by (simp add: parse_CatchCreate_def and_then_def c3_body_def c3_request_def required_str_def
      optional_str_def optional_int_def plain_bool_def optional_datetime_def)

lemma c3_persist:
  "persist_catch ex_env empty_database c3_request
     = Inr (c3_catch, empty_database\<lparr>catches := [c3_catch]\<rparr>)"
  by (simp add: persist_catch_def ex_env_def c3_request_def c3_catch_def
      empty_database_def high_tide_values_def next_catch_id_def fits_integer_column_def Let_def)

lemma c3_zone_step:
  "update_zone_condition_effect (empty_database\<lparr>catches := [c3_catch]\<rparr>) ''speckled_trout''
     ''Zone 3'' \<lparr>cond_tide_stage = Some ''high'', cond_clarity = Some ''clean'',
                 cond_wind_direction = Some ''N'', cond_current_speed = None\<rparr> 1
   = (Inr (Some c3_zone_row),
      empty_database\<lparr>catches := [c3_catch], zone_condition_effects := [c3_zone_row]\<rparr>)"
  by (simp add: update_zone_condition_effect_def tide_high clarity_clean classify_wind_def
      classify_current_def wind_preferences_def truthy_def py_log_def empty_database_def
      c3_zone_row_def Let_def)

lemma c3_score_step:
  "recalculate_bite_score ex_scoring
     (empty_database\<lparr>catches := [c3_catch], zone_condition_effects := [c3_zone_row]\<rparr>)
     ''speckled_trout'' ''Zone 3'' False 0
   = (Inr c3_score_row, c3_store)"
proof -
  have cnt: "count_catches (empty_database\<lparr>catches := [c3_catch],
        zone_condition_effects := [c3_zone_row]\<rparr>) ''speckled_trout'' ''Zone 3'' = 1"
    by (simp add: count_catches_def c3_catch_def)
  have none: "bite_scores (empty_database\<lparr>catches := [c3_catch],
        zone_condition_effects := [c3_zone_row]\<rparr>) = []"
    by (simp add: empty_database_def)
  show ?thesis
    unfolding recalculate_bite_score_def Let_def cnt none
    by (simp add: ex_scoring_def get_score_rating_def get_confidence_level_def c3_score_row_def
        c3_store_def)
qed

lemma c3_tip_step:
  "update_species_zone_tip ex_tips c3_store ''speckled_trout'' ''Zone 3'' 0 = (Inr (), c3_store)"
  by (simp add: update_species_zone_tip_def ex_tips_def)

lemma c3_weight: "condition_weight ''speckled_trout'' None = 1"
  by (simp add: condition_weight_def is_crab_trap_def truthy_def)

lemma c3_triggers:
  "catch_triggers ex_env (bayscan_ops ex_scoring ex_tips)
     (empty_database\<lparr>catches := [c3_catch]\<rparr>) c3_catch = (Inr (), c3_store)"
proof -
  have fields: "c_rig_type c3_catch = None" "c_species c3_catch = ''speckled_trout''"
    "c_zone_id c3_catch = ''Zone 3''" "c_tide_stage c3_catch = Some ''high''"
    "c_wind_direction c3_catch = Some ''N''" "c_current_speed c3_catch = None"
    by (simp_all add: c3_catch_def)
  have now: "env_utcnow ex_env = 0" by (simp add: ex_env_def)
  have ops: "op_update_zone_condition_effect (bayscan_ops ex_scoring ex_tips)
               = update_zone_condition_effect"
    "op_recalculate_bite_score (bayscan_ops ex_scoring ex_tips) = recalculate_bite_score ex_scoring"
    "op_update_species_zone_tip (bayscan_ops ex_scoring ex_tips) = update_species_zone_tip ex_tips"
    by (simp_all add: bayscan_ops_def)
  have no_rig: "\<not> truthy None" by (simp add: truthy_def)
  show ?thesis
    unfolding catch_triggers_def Let_def fields now ops c3_weight
    by (simp add: no_rig then_step_def c3_zone_step c3_score_step c3_tip_step)
qed

lemma c3_result:
  "post_catches ex_env (bayscan_ops ex_scoring ex_tips) empty_database c3_body
     = Valid (Inr (success_response c3_catch), c3_store)"
  by (simp add: post_catches_def c3_parse log_catch_after_commit[OF c3_persist] c3_triggers)


lemma hours_between_past: "t \<le> now \<Longrightarrow> 0 \<le> hours_between now t"
  by (simp add: hours_between_def)















lemma max_by_fold: "key (max_by key best xs) = fold max (map key xs) (key best)"
proof (induction xs arbitrary: best)
  case Nil
  show ?case by simp
next
  case (Cons x xs)
  have "key (if key best < key x then x else best) = max (key x) (key best)"
    by (simp add: max_def)
  with Cons show ?case by simp
qed

lemma max_by_Max: "key (max_by key p ps) = Max (key ` set (p # ps))"
proof -
  have "Max (set (key p # map key ps)) = fold max (map key ps) (key p)"
    by (rule Max.set_eq_fold)
  then show ?thesis by (simp add: max_by_fold)
qed

lemma predator_recent: "recent_predators_of predator_db ''Zone 1'' 0 = [predator_now]"
  by (simp add: recent_predators_of_def predator_db_def predator_now_def empty_database_def
      timedelta_hours_def)

text \<open>
  A catch dated 128 days ahead of the clock: \<open>0.75 ** hours_ago\<close> raises
  \<open>OverflowError\<close>, the handler of the function catches it and the modifier is 0.
\<close>

lemma far_future_power: "py_pow 0.75 (- 3072) = Inl OverflowError"
proof -
  have i: "inverse (0.75::real) = 4 / 3" by simp
  have "(0.75::real) powr (- 3072) = inverse (0.75 powr 3072)" by (rule powr_minus)
  also have "(0.75::real) powr 3072 = 0.75 ^ 3072" by (rule powr_numeral) simp
  also have "inverse ((0.75::real) ^ 3072) = (inverse 0.75) ^ 3072"
    by (rule power_inverse[symmetric])
  finally have a: "(0.75::real) powr (- 3072) = (4 / 3) ^ 3072" unfolding i .
  have "(2::real) ^ 1024 \<le> ((4 / 3) ^ 3) ^ 1024"
    by (rule power_mono) (simp_all add: power3_eq_cube)
  also have "((4 / 3::real) ^ 3) ^ 1024 = (4 / 3) ^ (3 * 1024)" by (rule power_mult[symmetric])
  also have "(3 * 1024::nat) = 3072" by simp
  finally have b: "(2::real) ^ 1024 \<le> (4 / 3) ^ 3072" .
  have c: "(2::real) ^ 1024 - 2 ^ 970 \<le> 2 ^ 1024" by simp
  have "\<not> y < x" if "x \<le> z" "z \<le> y" for x y z :: real using that by linarith
  from this[OF c b] have d: "\<not> (4 / 3::real) ^ 3072 < 2 ^ 1024 - 2 ^ 970" .
  show ?thesis unfolding py_pow_def a using d by (rule if_not_P)
qed

lemma far_future_catch_gives_zero:
  "recent_activity_modifier future_db ''redfish'' ''Zone 1'' 0 = 0"
proof -
  have r: "recent_catches_of future_db ''redfish'' ''Zone 1'' 0
      = [ex_catch\<lparr>c_timestamp := timedelta_hours 3072\<rparr>]"
    by (simp add: recent_catches_of_def future_db_def ex_catch_def empty_database_def
        timedelta_hours_def)
  have h: "hours_between 0 (timedelta_hours 3072) = - 3072"
    by (simp add: hours_between_def timedelta_hours_def)
  have "recent_activity_loop 0 [ex_catch\<lparr>c_timestamp := timedelta_hours 3072\<rparr>] 0
      = Inl OverflowError"
    using far_future_power by (simp add: h)
  then show ?thesis
    by (simp add: recent_activity_modifier_def calculate_recent_activity_modifier_def r Let_def)
qed

text \<open>The three updaters on a catch whose bands are known and whose prior counts are not negative.\<close>

lemma find_holds: "find P xs = Some x \<Longrightarrow> P x"
  by (auto simp: find_Some_iff)

lemma update_rig_effect_ok:
  assumes rt: "rt \<noteq> []" "rt \<noteq> ''unknown''"
    and same: "same = is_rig_effect_of species zone_id rt"
    and prior: "prior = (case find same (rig_effects db) of
                           None \<Rightarrow> 0 | Some r \<Rightarrow> re_success_count r)"
    and pos: "0 \<le> prior"
  shows "\<exists>row. update_rig_effect db species zone_id (Some rt) now
                 = (Inr (Some row), db\<lparr>rig_effects := put_first same row (rig_effects db)\<rparr>)
             \<and> same row \<and> re_success_count row = prior + 1
             \<and> re_weight row = min 3 (ln (re_success_count row + 1))"
proof -
  define row0 where "row0 =
      (case find same (rig_effects db) of
         Some r \<Rightarrow> r\<lparr>re_success_count := re_success_count r + 1, re_last_used := Some now\<rparr>
       | None \<Rightarrow> \<lparr>re_species = species, re_zone_id = zone_id, re_rig_type = rt,
                   re_success_count = 1, re_weight = 0, re_last_used = Some now\<rparr>)"
  define row where "row = row0\<lparr>re_weight := min 3 (ln (re_success_count row0 + 1))\<rparr>"
  have count0: "re_success_count row0 = prior + 1"
    by (simp add: row0_def prior split: option.splits)
  then have log: "py_log (re_success_count row0 + 1) = Inr (ln (re_success_count row0 + 1))"
    using pos by (simp add: py_log_def)
  have same_row: "same row"
  proof (cases "find same (rig_effects db)")
    case None
    then show ?thesis by (simp add: row_def row0_def same is_rig_effect_of_def)
  next
    case (Some r)
    then have "same r" by (rule find_holds)
    with Some show ?thesis by (simp add: row_def row0_def same is_rig_effect_of_def)
  qed
  have "update_rig_effect db species zone_id (Some rt) now =
      (case py_log (re_success_count row0 + 1) of
         Inl e \<Rightarrow> (Inl e, db)
       | Inr l \<Rightarrow> (Inr (Some (row0\<lparr>re_weight := min 3 l\<rparr>)),
            db\<lparr>rig_effects := put_first same (row0\<lparr>re_weight := min 3 l\<rparr>) (rig_effects db)\<rparr>))"
    unfolding update_rig_effect_def row0_def same Let_def using rt by simp
  then have run: "update_rig_effect db species zone_id (Some rt) now
      = (Inr (Some row), db\<lparr>rig_effects := put_first same row (rig_effects db)\<rparr>)"
    by (simp add: log row_def)
  show ?thesis using run same_row count0 by (intro exI[of _ row]) (simp add: row_def)
qed

lemma update_zone_condition_effect_ok:
  assumes tide: "classify_tide (cond_tide_stage conds) \<noteq> ''unknown''"
    and same: "same = is_zone_condition_effect_of species zone_id
        (classify_tide (cond_tide_stage conds)) (classify_clarity (cond_clarity conds))
        (classify_wind (cond_wind_direction conds) species)
        (classify_current (cond_current_speed conds))"
    and prior: "prior = (case find same (zone_condition_effects db) of
                           None \<Rightarrow> 0 | Some r \<Rightarrow> zce_success_count r)"
    and pos: "0 < prior + w + 1"
  shows "\<exists>row. update_zone_condition_effect db species zone_id conds w
                 = (Inr (Some row),
                    db\<lparr>zone_condition_effects := put_first same row (zone_condition_effects db)\<rparr>)
             \<and> same row \<and> zce_success_count row = prior + w
             \<and> zce_weight row = min 4 (ln (zce_success_count row + 1))"
proof -
  define row0 where "row0 =
    (case find same (zone_condition_effects db) of
       Some r \<Rightarrow> r\<lparr>zce_success_count := zce_success_count r + w\<rparr>
     | None \<Rightarrow>
         \<lparr>zce_species = species, zce_zone_id = zone_id,
          zce_tide_band = classify_tide (cond_tide_stage conds),
          zce_clarity_band = classify_clarity (cond_clarity conds),
          zce_wind_band = classify_wind (cond_wind_direction conds) species,
          zce_current_band = classify_current (cond_current_speed conds),
          zce_success_count = w, zce_weight = 0\<rparr>)"
  define row where "row = row0\<lparr>zce_weight := min 4 (ln (zce_success_count row0 + 1))\<rparr>"
  have count0: "zce_success_count row0 = prior + w"
    by (simp add: row0_def prior split: option.splits)
  then have log: "py_log (zce_success_count row0 + 1) = Inr (ln (zce_success_count row0 + 1))"
    using pos by (simp add: py_log_def)
  have same_row: "same row"
  proof (cases "find same (zone_condition_effects db)")
    case None
    then show ?thesis by (simp add: row_def row0_def same is_zone_condition_effect_of_def)
  next
    case (Some r)
    then have "same r" by (rule find_holds)
    with Some show ?thesis by (simp add: row_def row0_def same is_zone_condition_effect_of_def)
  qed
  have "update_zone_condition_effect db species zone_id conds w =
      (case py_log (zce_success_count row0 + 1) of
         Inl e \<Rightarrow> (Inl e, db)
       | Inr l \<Rightarrow> (Inr (Some (row0\<lparr>zce_weight := min 4 l\<rparr>)),
            db\<lparr>zone_condition_effects :=
                 put_first same (row0\<lparr>zce_weight := min 4 l\<rparr>) (zone_condition_effects db)\<rparr>))"
    unfolding update_zone_condition_effect_def row0_def same Let_def using tide by simp
  then have run: "update_zone_condition_effect db species zone_id conds w
      = (Inr (Some row),
         db\<lparr>zone_condition_effects := put_first same row (zone_condition_effects db)\<rparr>)"
    by (simp add: log row_def)
  show ?thesis using run same_row count0 by (intro exI[of _ row]) (simp add: row_def)
qed

lemma update_rig_condition_effect_ok:
  assumes rt: "rt \<noteq> []" "rt \<noteq> ''unknown''"
    and tide: "classify_tide (cond_tide_stage conds) \<noteq> ''unknown''"
    and same: "same = is_rig_condition_effect_of species rt
        (classify_tide (cond_tide_stage conds)) (classify_clarity (cond_clarity conds))"
    and prior: "prior = (case find same (rig_condition_effects db) of
                           None \<Rightarrow> 0 | Some r \<Rightarrow> rce_success_count r)"
    and pos: "0 < prior + w + 1"
  shows "\<exists>row. update_rig_condition_effect db species (Some rt) conds w
                 = (Inr (Some row),
                    db\<lparr>rig_condition_effects := put_first same row (rig_condition_effects db)\<rparr>)
             \<and> same row \<and> rce_success_count row = prior + w
             \<and> rce_weight row = min 4 (ln (rce_success_count row + 1))"
proof -
  define row0 where "row0 =
    (case find same (rig_condition_effects db) of
       Some r \<Rightarrow> r\<lparr>rce_success_count := rce_success_count r + w\<rparr>
     | None \<Rightarrow>
         \<lparr>rce_species = species, rce_rig_type = rt,
          rce_tide_band = classify_tide (cond_tide_stage conds),
          rce_clarity_band = classify_clarity (cond_clarity conds),
          rce_success_count = w, rce_weight = 0\<rparr>)"
  define row where "row = row0\<lparr>rce_weight := min 4 (ln (rce_success_count row0 + 1))\<rparr>"
  have count0: "rce_success_count row0 = prior + w"
    by (simp add: row0_def prior split: option.splits)
  then have log: "py_log (rce_success_count row0 + 1) = Inr (ln (rce_success_count row0 + 1))"
    using pos by (simp add: py_log_def)
  have same_row: "same row"
  proof (cases "find same (rig_condition_effects db)")
    case None
    then show ?thesis by (simp add: row_def row0_def same is_rig_condition_effect_of_def)
  next
    case (Some r)
    then have "same r" by (rule find_holds)
    with Some show ?thesis by (simp add: row_def row0_def same is_rig_condition_effect_of_def)
  qed
  have "update_rig_condition_effect db species (Some rt) conds w =
      (case py_log (rce_success_count row0 + 1) of
         Inl e \<Rightarrow> (Inl e, db)
       | Inr l \<Rightarrow> (Inr (Some (row0\<lparr>rce_weight := min 4 l\<rparr>)),
            db\<lparr>rig_condition_effects :=
                 put_first same (row0\<lparr>rce_weight := min 4 l\<rparr>) (rig_condition_effects db)\<rparr>))"
    unfolding update_rig_condition_effect_def row0_def same Let_def using rt tide by simp
  then have run: "update_rig_condition_effect db species (Some rt) conds w
      = (Inr (Some row),
         db\<lparr>rig_condition_effects := put_first same row (rig_condition_effects db)\<rparr>)"
    by (simp add: log row_def)
  show ?thesis using run same_row count0 by (intro exI[of _ row]) (simp add: row_def)
qed

lemma frame_condition_effects:
  "zone_condition_effects (snd (recalculate_bite_score scoring db species zone_id force_recalc now))
     = zone_condition_effects db"
  "zone_condition_effects (snd (update_species_zone_tip tips db species zone_id now))
     = zone_condition_effects db"
  "rig_condition_effects (snd (recalculate_bite_score scoring db species zone_id force_recalc now))
     = rig_condition_effects db"
  "rig_condition_effects (snd (update_species_zone_tip tips db species zone_id now))
     = rig_condition_effects db"
  using recalculate_bite_score_cases[of scoring db species zone_id force_recalc now]
    update_species_zone_tip_cases[of tips db species zone_id now]
  by auto

lemma then_step_Inr: "then_step (Inr x, db) f = f db"
  by (simp add: then_step_def)

lemma condition_weight_value:
  "condition_weight species (Some rt) =
     (if species = ''blue_crab'' \<and> rt \<noteq> []
         \<and> (py_in ''trap'' (lower rt) \<or> py_in ''pot'' (lower rt))
      then 0.15 else 1)"
  by (simp add: condition_weight_def is_crab_trap_def truthy_def)

lemma condition_weight_pos: "0 < condition_weight species rig_type"
  by (simp add: condition_weight_def)

lemma crab_fields:
  "c_species crab_catch = ''blue_crab''" "c_zone_id crab_catch = ''Zone 1''"
  "c_rig_type crab_catch = Some ''crab trap''" "c_tide_stage crab_catch = Some ''high''"
  by (simp_all add: crab_catch_def)

section \<open>Smoothing of the cached score\<close>

text \<open>
  C4, as the code has it. For a pair with at least 50 catches and a cached score \<open>S_old\<close>
  in [0,100], a recompute without \<open>force_recalc\<close> whose raw score \<open>R\<close> lies in [0,100]
  succeeds and caches the double-precision evaluation of \<open>S_old * (1 - w) + R * w\<close>, where
  \<open>w\<close> is the weight of the schedule of section 4.7 at the number of catches: the cached
  score is within \<open>10 ^ -12\<close> of the exact value of that expression, and it moves by at most
  \<open>0.15 * |R - S_old| + 10 ^ -12\<close>.
\<close>

theorem smoothing_bounded_step:
  assumes old: "find (is_bite_score_of species zone_id) (bite_scores db) = Some old"
    and old_range: "0 \<le> bs_score old" "bs_score old \<le> 100"
    and many: "50 \<le> count_catches db species zone_id"
    and raw: "scoring db species zone_id now = Inr (R, reason)"
    and raw_range: "0 \<le> R" "R \<le> 100"
  shows "\<exists>row db'.
           recalculate_bite_score scoring db species zone_id False now = (Inr row, db')
         \<and> find (is_bite_score_of species zone_id) (bite_scores db') = Some row
         \<and> \<bar>bs_score row
              - (bs_score old * (1 - spec_smoothing_weight (count_catches db species zone_id))
                 + R * spec_smoothing_weight (count_catches db species zone_id))\<bar>
             \<le> 1 / 10 ^ 12
         \<and> \<bar>bs_score row - bs_score old\<bar> \<le> 0.15 * \<bar>R - bs_score old\<bar> + 1 / 10 ^ 12"
proof -
  define N where "N = count_catches db species zone_id"
  define w where "w = get_smoothing_weight N"
  define w0 where "w0 = spec_smoothing_weight N"
  define S where "S = bs_score old"
  define x where "x = fl (fl (S * fl (1 - w)) + fl (R * w))"
  define I where "I = S * (1 - w0) + R * w0"
  have N50: "50 \<le> N" using many by (simp add: N_def)
  have w0_range: "1 / 10 \<le> w0" "w0 \<le> 15 / 100"
    unfolding w0_def using spec_smoothing_weight_high_data[OF N50] by simp_all
  have w_close: "\<bar>w - w0\<bar> \<le> 3 * double_eps"
    unfolding w_def w0_def using N50 by (rule smoothing_weight_close)
  have S_range: "0 \<le> S" "S \<le> 100" using old_range by (simp_all add: S_def)
  have x_close: "\<bar>x - I\<bar> \<le> 1200 * double_eps"
    unfolding x_def I_def using S_range raw_range w_close w0_range by (rule smoothing_step_close)
  have a1: "0 \<le> S * (1 - w0)" using S_range w0_range by simp
  have a2: "S * (1 - w0) \<le> 100 * (1 - w0)"
    using S_range w0_range by (intro mult_right_mono) linarith+
  have b1: "0 \<le> R * w0" using raw_range w0_range by simp
  have b2: "R * w0 \<le> 100 * w0"
    using raw_range w0_range by (intro mult_right_mono) linarith+
  have "A + B \<le> 100"
    if "A \<le> 100 * (1 - w0)" "B \<le> 100 * w0" for A B :: real
    using that by argo
  from this[OF a2 b2] a1 b1 have I_range: "0 \<le> I" "I \<le> 100" unfolding I_def by simp_all
  define score where "score = max 0 (min 100 x)"
  have "\<bar>score - I\<bar> \<le> \<bar>x - I\<bar>" unfolding score_def using I_range by (rule clamp_close)
  then have score_close: "\<bar>score - I\<bar> \<le> 1 / 10 ^ 12"
    using x_close double_eps_bounds by simp
  have "I - S = w0 * (R - S)" by (simp add: I_def algebra_simps)
  then have "\<bar>I - S\<bar> = w0 * \<bar>R - S\<bar>" using w0_range by (simp add: abs_mult)
  also have "\<dots> \<le> 0.15 * \<bar>R - S\<bar>" using w0_range by (intro mult_right_mono) simp_all
  finally have "\<bar>I - S\<bar> \<le> 0.15 * \<bar>R - S\<bar>" .
  then have bound: "\<bar>score - S\<bar> \<le> 0.15 * \<bar>R - S\<bar> + 1 / 10 ^ 12"
    using score_close by linarith
  define row where "row = \<lparr>bs_species = species, bs_zone_id = zone_id, bs_score = score,
       bs_rating = get_score_rating score, bs_confidence = get_confidence_level N,
       bs_reason_summary = reason, bs_last_updated = now\<rparr>"
  have run: "recalculate_bite_score scoring db species zone_id False now =
      (Inr row, db\<lparr>bite_scores := put_first (is_bite_score_of species zone_id) row (bite_scores db)\<rparr>)"
    by (simp add: recalculate_bite_score_def raw old Let_def N_def[symmetric] w_def[symmetric]
        S_def[symmetric] x_def[symmetric] score_def[symmetric] row_def)
  have key: "is_bite_score_of species zone_id row"
    by (simp add: is_bite_score_of_def row_def)
  have found: "find (is_bite_score_of species zone_id)
      (put_first (is_bite_score_of species zone_id) row (bite_scores db)) = Some row"
    using key by (rule put_first_find)
  have sc: "bs_score row = score" by (simp add: row_def)
  show ?thesis
    using run found score_close bound
    unfolding sc[symmetric] I_def w0_def S_def N_def by simp
qed

theorem smoothing_bounded_step_witness:
  "\<exists>row db'.
      recalculate_bite_score ex_scoring (ex_db 50) ''redfish'' ''Zone 1'' False 7 = (Inr row, db')
    \<and> \<bar>bs_score row - 43\<bar> \<le> 1 / 10 ^ 12
    \<and> \<bar>bs_score row - 40\<bar> \<le> 0.15 * \<bar>60 - 40\<bar> + 1 / 10 ^ 12"
proof -
  have cnt: "count_catches (ex_db 50) ''redfish'' ''Zone 1'' = 50"
    by (simp add: count_catches_def ex_db_def ex_catch_def empty_database_def)
  have old: "find (is_bite_score_of ''redfish'' ''Zone 1'') (bite_scores (ex_db 50)) = Some ex_old"
    by (simp add: ex_db_def ex_old_def is_bite_score_of_def empty_database_def)
  have raw: "ex_scoring (ex_db 50) ''redfish'' ''Zone 1'' 7 = Inr (60, ''peak season'')"
    by (simp add: ex_scoring_def)
  have many: "50 \<le> count_catches (ex_db 50) ''redfish'' ''Zone 1''" using cnt by simp
  have r1: "0 \<le> bs_score ex_old" and r2: "bs_score ex_old \<le> 100"
    by (simp_all add: ex_old_def)
  have "(0::real) \<le> 60" and "(60::real) \<le> 100" by simp_all
  from smoothing_bounded_step[where scoring = ex_scoring and db = "ex_db 50" and old = ex_old
      and R = 60, OF old r1 r2 many raw this]
  show ?thesis
    by (auto simp: cnt ex_old_def spec_smoothing_weight_def)
qed

text \<open>
  The claim as worded fails by one rounding: with 50 catches the weight is the double
  above 0.15, and from a cached score of 0 a raw score of 60 is smoothed to
  \<open>9 + 2 ^ -49\<close>, above \<open>0.15 * 60\<close>.
\<close>

theorem smoothing_exceeds_exact_bound:
  "count_catches zero_db ''redfish'' ''Zone 1'' = 50
   \<and> map bs_score (bite_scores zero_db) = [0]
   \<and> ex_scoring zero_db ''redfish'' ''Zone 1'' 7 = Inr (60, ''peak season'')
   \<and> map bs_score (bite_scores (snd (recalculate_bite_score ex_scoring zero_db ''redfish''
                                        ''Zone 1'' False 7)))
       = [5066549580791809 / 2 ^ 49]
   \<and> \<not> \<bar>5066549580791809 / 2 ^ 49 - 0\<bar> \<le> 0.15 * \<bar>60 - (0::real)\<bar>"
proof -
  have cnt: "count_catches zero_db ''redfish'' ''Zone 1'' = 50"
    by (simp add: count_catches_def zero_db_def ex_catch_def empty_database_def)
  have tab: "map bs_score (bite_scores zero_db) = [0]"
    by (simp add: zero_db_def empty_database_def zero_old_def)
  have raw: "ex_scoring zero_db ''redfish'' ''Zone 1'' 7 = Inr (60, ''peak season'')"
    by (simp add: ex_scoring_def)
  have gt: "\<not> \<bar>5066549580791809 / 2 ^ 49 - 0\<bar> \<le> 0.15 * \<bar>60 - (0::real)\<bar>" by simp
  show ?thesis using cnt tab raw zero_db_recalc gt by blast
qed

section \<open>Rating and confidence of a cached score\<close>

text \<open>
  C8. The row that a recompute caches carries a rating and a confidence that are
  functions of its score and of the number of catches of the pair: Poor up to 20, Fair up
  to 40, Good up to 60, Great up to 80 and Excellent above; low below 10 catches, medium
  below 50 and high from 50 on. With exactly 10 catches the confidence is medium.
\<close>

theorem cached_rating_confidence:
  assumes "recalculate_bite_score scoring db species zone_id force_recalc now = (Inr row, db')"
  shows "row \<in> set (bite_scores db')
       \<and> bs_rating row =
           (if bs_score row \<le> 20 then ''Poor'' else if bs_score row \<le> 40 then ''Fair''
            else if bs_score row \<le> 60 then ''Good'' else if bs_score row \<le> 80 then ''Great''
            else ''Excellent'')
       \<and> bs_confidence row =
           (if count_catches db species zone_id < 10 then ''low''
            else if count_catches db species zone_id < 50 then ''medium'' else ''high'')
       \<and> (count_catches db species zone_id = 10 \<longrightarrow> bs_confidence row = ''medium'')"
proof (cases "scoring db species zone_id now")
  case (Inl e)
  with assms show ?thesis by (simp add: recalculate_bite_score_def)
next
  case (Inr p)
  obtain R reason where p: "p = (R, reason)" by (cases p)
  from assms Inr p have row: "row = \<lparr>bs_species = species, bs_zone_id = zone_id,
      bs_score = bs_score row, bs_rating = get_score_rating (bs_score row),
      bs_confidence = get_confidence_level (count_catches db species zone_id),
      bs_reason_summary = reason, bs_last_updated = now\<rparr>"
    and db': "db' = db\<lparr>bite_scores := put_first (is_bite_score_of species zone_id) row (bite_scores db)\<rparr>"
    by (auto simp: recalculate_bite_score_def Let_def)
  have r: "bs_rating row = get_score_rating (bs_score row)"
    and c: "bs_confidence row = get_confidence_level (count_catches db species zone_id)"
    by (subst row, simp)+
  show ?thesis
    using r c db' put_first_mem[of row "is_bite_score_of species zone_id" "bite_scores db"]
    by (simp add: get_score_rating_def get_confidence_level_def)
qed

theorem cached_rating_confidence_witness:
  "\<exists>row db'.
      recalculate_bite_score ex_scoring (ex_db 10) ''redfish'' ''Zone 1'' True 7 = (Inr row, db')
    \<and> count_catches (ex_db 10) ''redfish'' ''Zone 1'' = 10
    \<and> bs_score row = 60 \<and> bs_rating row = ''Good'' \<and> bs_confidence row = ''medium''"
proof -
  have cnt: "count_catches (ex_db 10) ''redfish'' ''Zone 1'' = 10"
    by (simp add: count_catches_def ex_db_def ex_catch_def empty_database_def)
  obtain row db' where run:
    "recalculate_bite_score ex_scoring (ex_db 10) ''redfish'' ''Zone 1'' True 7 = (Inr row, db')"
    and score: "bs_score row = 60"
    by (simp add: recalculate_bite_score_def ex_scoring_def ex_db_def ex_old_def
        empty_database_def is_bite_score_of_def Let_def)
  from cached_rating_confidence[OF run] cnt score run show ?thesis by simp
qed

section \<open>Tide bands\<close>

text \<open>
  C10, as the code has it. \<open>classify_tide\<close> tests the keywords in order: a stage is put in
  the band slack exactly when it is non-empty, names none of incoming, rising, outgoing
  and falling, and names slack, high or low; it is unknown exactly when it is missing,
  empty or names none of the seven keywords. So a catch at high or low tide is learned
  under slack, not skipped.
\<close>

theorem classify_tide_bands:
  "(classify_tide st = ''slack'') =
     (\<exists>s. st = Some s \<and> s \<noteq> []
          \<and> \<not> mentions [''incoming'', ''rising'', ''outgoing'', ''falling''] s
          \<and> mentions [''slack'', ''high'', ''low''] s)
   \<and> (classify_tide st = ''unknown'') =
     (st = None \<or> st = Some []
      \<or> (\<exists>s. st = Some s
            \<and> \<not> mentions [''incoming'', ''rising'', ''outgoing'', ''falling'', ''slack'',
                            ''high'', ''low''] s))"
  by (cases st) (auto simp: classify_tide_def truthy_def mentions_def Let_def)

theorem classify_tide_bands_witness:
  "classify_tide (Some ''High'') = ''slack'' \<and> classify_tide (Some ''ebb'') = ''unknown''"
proof -
  have a: "\<exists>s. Some ''High'' = Some s \<and> s \<noteq> []
          \<and> \<not> mentions [''incoming'', ''rising'', ''outgoing'', ''falling''] s
          \<and> mentions [''slack'', ''high'', ''low''] s"
    by (simp add: mentions_def lower_def lower_char_def)
  have b: "\<not> mentions [''incoming'', ''rising'', ''outgoing'', ''falling'', ''slack'',
                        ''high'', ''low''] ''ebb''"
    by (simp add: mentions_def lower_def lower_char_def)
  from a b classify_tide_bands[of "Some ''High''"] classify_tide_bands[of "Some ''ebb''"]
  show ?thesis by blast
qed

text \<open>
  The claim as worded fails: a stage that names high together with falling is put in the
  band outgoing.
\<close>

theorem high_or_low_not_always_slack:
  "py_in ''high'' (lower ''high falling'')
   \<and> classify_tide (Some ''high falling'') = ''outgoing''
   \<and> classify_tide (Some ''high falling'') \<noteq> ''slack''"
  by (simp add: classify_tide_def truthy_def lower_def lower_char_def)

section \<open>Learned weights\<close>

text \<open>
  C5. After any sequence of learning updates every row of \<open>rig_effects\<close> has
  \<open>weight = min 3 (ln (success_count + 1))\<close> and every row of the two condition-effect
  tables has \<open>weight = min 4 (ln (success_count + 1))\<close>.
\<close>

theorem learned_weights_consistent:
  assumes "learned db"
  shows "weights_consistent db"
  using assms
proof (induction rule: learned.induct)
  case learned_start
  show ?case by (simp add: weights_consistent_def empty_database_def)
next
  case (learned_other_tables db db')
  then show ?case by (simp add: weights_consistent_def)
next
  case (learned_rig db species zone_id rig_type now)
  then show ?case by (simp add: update_rig_effect_consistent)
next
  case (learned_zone_condition db species zone_id conds weight_multiplier)
  then show ?case by (simp add: update_zone_condition_effect_consistent)
next
  case (learned_rig_condition db species rig_type conds weight_multiplier)
  then show ?case by (simp add: update_rig_condition_effect_consistent)
qed

theorem learned_weights_consistent_witness:
  "learned crab_db \<and> weights_consistent crab_db
   \<and> map (\<lambda>r. (rce_success_count r, rce_weight r)) (rig_condition_effects crab_db)
       = [(0.15, min 4 (ln 1.15))]"
proof -
  have "learned crab_db"
    unfolding crab_db_def
    by (intro learned_rig_condition learned_zone_condition learned_rig learned_start)
  with learned_weights_consistent[of crab_db] crab_db_value show ?thesis by simp
qed

section \<open>Rig learning on a catch\<close>

text \<open>
  C1, as the code has it. For a catch that carries a rig type (not empty and not
  \<open>unknown\<close>) and a prior success count that is not negative, the event triggers leave a
  \<open>rig_effects\<close> row for (species, zone, rig type) whose success count is the prior count
  (0 when there was no row) plus 1, and whose weight is \<open>min 3 (ln (success_count + 1))\<close>.
  The step is 1 for a crab trap too. The multiplier, 0.15 for a crab trap (species
  \<open>blue_crab\<close>, rig type containing \<open>trap\<close> or \<open>pot\<close>) and 1 otherwise, goes to the two
  condition tables: when the tide band of the catch is known and the prior counts there are
  not negative, the \<open>zone_condition_effects\<close> row and the \<open>rig_condition_effects\<close> row of
  the catch have their success count increased by the multiplier and their weight set to
  \<open>min 4 (ln (success_count + 1))\<close>.
\<close>

theorem rig_effect_counts_each_catch:
  assumes rt: "c_rig_type catch = Some rt" "rt \<noteq> []" "rt \<noteq> ''unknown''"
    and prior: "0 \<le> rig_count db catch rt"
  shows "(\<exists>row.
            find (rig_key catch rt)
              (rig_effects (snd (catch_triggers env (bayscan_ops scoring tips) db catch)))
              = Some row
          \<and> re_success_count row = rig_count db catch rt + 1
          \<and> re_weight row = min 3 (ln (re_success_count row + 1)))
       \<and> condition_weight (c_species catch) (Some rt)
           = (if c_species catch = ''blue_crab''
                 \<and> (py_in ''trap'' (lower rt) \<or> py_in ''pot'' (lower rt))
              then 0.15 else 1)
       \<and> (classify_tide (c_tide_stage catch) \<noteq> ''unknown''
            \<and> 0 \<le> zone_condition_count db catch \<and> 0 \<le> rig_condition_count db catch rt
          \<longrightarrow>
            (\<exists>row.
               find (zone_condition_key catch)
                 (zone_condition_effects
                    (snd (catch_triggers env (bayscan_ops scoring tips) db catch)))
                 = Some row
             \<and> zce_success_count row
                 = zone_condition_count db catch + condition_weight (c_species catch) (Some rt)
             \<and> zce_weight row = min 4 (ln (zce_success_count row + 1)))
          \<and> (\<exists>row.
               find (rig_condition_key catch rt)
                 (rig_condition_effects
                    (snd (catch_triggers env (bayscan_ops scoring tips) db catch)))
                 = Some row
             \<and> rce_success_count row
                 = rig_condition_count db catch rt + condition_weight (c_species catch) (Some rt)
             \<and> rce_weight row = min 4 (ln (rce_success_count row + 1))))"
proof -
  let ?final = "snd (catch_triggers env (bayscan_ops scoring tips) db catch)"
  define sp where "sp = c_species catch"
  define z where "z = c_zone_id catch"
  define w where "w = condition_weight sp (Some rt)"
  define conds where "conds =
      \<lparr>cond_tide_stage = c_tide_stage catch, cond_clarity = Some ''clean'',
       cond_wind_direction = c_wind_direction catch,
       cond_current_speed = c_current_speed catch\<rparr>"
  have truthy: "truthy (Some rt)" using rt(2) by (simp add: truthy_def)
  have w_pos: "0 < w" unfolding w_def by (rule condition_weight_pos)
  obtain row1 where r1: "update_rig_effect db sp z (Some rt) (env_utcnow env)
        = (Inr (Some row1), db\<lparr>rig_effects := put_first (rig_key catch rt) row1 (rig_effects db)\<rparr>)"
    and k1: "rig_key catch rt row1"
    and c1: "re_success_count row1 = rig_count db catch rt + 1"
    and w1: "re_weight row1 = min 3 (ln (re_success_count row1 + 1))"
    using update_rig_effect_ok[of rt "rig_key catch rt" sp z "rig_count db catch rt" db
        "env_utcnow env"] rt(2,3) prior
    by (auto simp: rig_key_def rig_count_def sp_def z_def)
  define db1 where "db1 = db\<lparr>rig_effects := put_first (rig_key catch rt) row1 (rig_effects db)\<rparr>"
  have "rig_effects ?final = put_first (rig_key catch rt) row1 (rig_effects db)"
    unfolding triggers_rig_effects using rt(1) truthy r1 by (simp add: sp_def z_def)
  moreover have "find (rig_key catch rt) (put_first (rig_key catch rt) row1 (rig_effects db))
      = Some row1"
    using k1 by (rule put_first_find)
  ultimately have rig_part: "\<exists>row. find (rig_key catch rt) (rig_effects ?final) = Some row
          \<and> re_success_count row = rig_count db catch rt + 1
          \<and> re_weight row = min 3 (ln (re_success_count row + 1))"
    using c1 w1 by simp
  have weight: "condition_weight (c_species catch) (Some rt)
           = (if c_species catch = ''blue_crab''
                 \<and> (py_in ''trap'' (lower rt) \<or> py_in ''pot'' (lower rt))
              then 0.15 else 1)"
    using rt(2) by (simp add: condition_weight_value)
  have cond_part:
    "(\<exists>row. find (zone_condition_key catch) (zone_condition_effects ?final) = Some row
         \<and> zce_success_count row = zone_condition_count db catch + w
         \<and> zce_weight row = min 4 (ln (zce_success_count row + 1)))
     \<and> (\<exists>row. find (rig_condition_key catch rt) (rig_condition_effects ?final) = Some row
         \<and> rce_success_count row = rig_condition_count db catch rt + w
         \<and> rce_weight row = min 4 (ln (rce_success_count row + 1)))"
    if tide: "classify_tide (c_tide_stage catch) \<noteq> ''unknown''"
      and pz: "0 \<le> zone_condition_count db catch"
      and pr: "0 \<le> rig_condition_count db catch rt"
  proof -
    have tide': "classify_tide (cond_tide_stage conds) \<noteq> ''unknown''"
      using tide by (simp add: conds_def)
    obtain row2 where r2: "update_zone_condition_effect db1 sp z conds w
          = (Inr (Some row2),
             db1\<lparr>zone_condition_effects :=
                  put_first (zone_condition_key catch) row2 (zone_condition_effects db1)\<rparr>)"
      and k2: "zone_condition_key catch row2"
      and c2: "zce_success_count row2 = zone_condition_count db catch + w"
      and w2: "zce_weight row2 = min 4 (ln (zce_success_count row2 + 1))"
      using update_zone_condition_effect_ok[of conds "zone_condition_key catch" sp z
          "zone_condition_count db catch" db1 w] tide' pz w_pos
      by (auto simp: zone_condition_key_def zone_condition_count_def sp_def z_def conds_def
          db1_def)
    define db2 where "db2 = db1\<lparr>zone_condition_effects :=
        put_first (zone_condition_key catch) row2 (zone_condition_effects db1)\<rparr>"
    obtain row3 where r3: "update_rig_condition_effect db2 sp (Some rt) conds w
          = (Inr (Some row3),
             db2\<lparr>rig_condition_effects :=
                  put_first (rig_condition_key catch rt) row3 (rig_condition_effects db2)\<rparr>)"
      and k3: "rig_condition_key catch rt row3"
      and c3: "rce_success_count row3 = rig_condition_count db catch rt + w"
      and w3: "rce_weight row3 = min 4 (ln (rce_success_count row3 + 1))"
      using update_rig_condition_effect_ok[of rt conds "rig_condition_key catch rt" sp
          "rig_condition_count db catch rt" db2 w] rt(2,3) tide' pr w_pos
      by (auto simp: rig_condition_key_def rig_condition_count_def sp_def conds_def
          db1_def db2_def)
    define db3 where "db3 = db2\<lparr>rig_condition_effects :=
        put_first (rig_condition_key catch rt) row3 (rig_condition_effects db2)\<rparr>"
    have final: "catch_triggers env (bayscan_ops scoring tips) db catch
        = then_step (recalculate_bite_score scoring db3 sp z False (env_utcnow env))
            (\<lambda>d. update_species_zone_tip tips d sp z (env_utcnow env))"
      unfolding catch_triggers_def Let_def rt(1) sp_def[symmetric] z_def[symmetric]
        conds_def[symmetric] w_def[symmetric]
      by (simp add: bayscan_ops_def truthy r1 db1_def[symmetric] then_step_Inr r2
          db2_def[symmetric] r3 db3_def[symmetric])
    have "zone_condition_effects ?final = zone_condition_effects db3"
      unfolding final by (simp add: then_step_frame frame_condition_effects)
    then have zfin: "zone_condition_effects ?final
        = put_first (zone_condition_key catch) row2 (zone_condition_effects db1)"
      by (simp add: db3_def db2_def)
    have "rig_condition_effects ?final = rig_condition_effects db3"
      unfolding final by (simp add: then_step_frame frame_condition_effects)
    then have rfin: "rig_condition_effects ?final
        = put_first (rig_condition_key catch rt) row3 (rig_condition_effects db2)"
      by (simp add: db3_def)
    have f2: "find (zone_condition_key catch)
        (put_first (zone_condition_key catch) row2 (zone_condition_effects db1)) = Some row2"
      using k2 by (rule put_first_find)
    have f3: "find (rig_condition_key catch rt)
        (put_first (rig_condition_key catch rt) row3 (rig_condition_effects db2)) = Some row3"
      using k3 by (rule put_first_find)
    show ?thesis unfolding zfin rfin f2 f3 using c2 w2 c3 w3 by simp
  qed
  show ?thesis using rig_part weight cond_part unfolding w_def sp_def by blast
qed

theorem rig_effect_counts_each_catch_witness:
  "(\<exists>row.
      find (rig_key crab_catch ''crab trap'')
        (rig_effects (snd (catch_triggers ex_env (bayscan_ops ex_scoring ex_tips)
                             empty_database crab_catch))) = Some row
    \<and> re_success_count row = 1 \<and> re_weight row = min 3 (ln 2))
   \<and> condition_weight ''blue_crab'' (Some ''crab trap'') = 0.15
   \<and> (\<exists>row.
      find (zone_condition_key crab_catch)
        (zone_condition_effects (snd (catch_triggers ex_env (bayscan_ops ex_scoring ex_tips)
                                        empty_database crab_catch))) = Some row
    \<and> zce_success_count row = 0.15 \<and> zce_weight row = min 4 (ln 1.15))
   \<and> (\<exists>row.
      find (rig_condition_key crab_catch ''crab trap'')
        (rig_condition_effects (snd (catch_triggers ex_env (bayscan_ops ex_scoring ex_tips)
                                       empty_database crab_catch))) = Some row
    \<and> rce_success_count row = 0.15 \<and> rce_weight row = min 4 (ln 1.15))"
proof -
  have b: "''crab trap'' \<noteq> []" "''crab trap'' \<noteq> ''unknown''" by simp_all
  have counts: "rig_count empty_database crab_catch ''crab trap'' = 0"
    "zone_condition_count empty_database crab_catch = 0"
    "rig_condition_count empty_database crab_catch ''crab trap'' = 0"
    by (simp_all add: rig_count_def zone_condition_count_def rig_condition_count_def
        empty_database_def)
  have c: "0 \<le> rig_count empty_database crab_catch ''crab trap''" by (simp add: counts)
  have tide: "classify_tide (c_tide_stage crab_catch) \<noteq> ''unknown''"
    by (simp add: crab_fields tide_high)
  note t = rig_effect_counts_each_catch[OF crab_fields(3) b c, of ex_env ex_scoring ex_tips,
      unfolded counts crab_fields(1) crab_trap_weight]
  from t obtain r1 where r1:
    "find (rig_key crab_catch ''crab trap'')
       (rig_effects (snd (catch_triggers ex_env (bayscan_ops ex_scoring ex_tips)
                            empty_database crab_catch))) = Some r1"
    "re_success_count r1 = 0 + 1" "re_weight r1 = min 3 (ln (re_success_count r1 + 1))"
    by blast
  from t tide obtain r2 where r2:
    "find (zone_condition_key crab_catch)
       (zone_condition_effects (snd (catch_triggers ex_env (bayscan_ops ex_scoring ex_tips)
                                       empty_database crab_catch))) = Some r2"
    "zce_success_count r2 = 0 + 0.15" "zce_weight r2 = min 4 (ln (zce_success_count r2 + 1))"
    by auto
  from t tide obtain r3 where r3:
    "find (rig_condition_key crab_catch ''crab trap'')
       (rig_condition_effects (snd (catch_triggers ex_env (bayscan_ops ex_scoring ex_tips)
                                      empty_database crab_catch))) = Some r3"
    "rce_success_count r3 = 0 + 0.15" "rce_weight r3 = min 4 (ln (rce_success_count r3 + 1))"
    by auto
  have w1: "re_success_count r1 = 1 \<and> re_weight r1 = min 3 (ln 2)"
    using r1(2,3) by simp
  have n2: "zce_success_count r2 = 0.15" using r2(2) by simp
  have w2: "zce_success_count r2 = 0.15 \<and> zce_weight r2 = min 4 (ln 1.15)"
    unfolding r2(3) n2 by simp
  have n3: "rce_success_count r3 = 0.15" using r3(2) by simp
  have w3: "rce_success_count r3 = 0.15 \<and> rce_weight r3 = min 4 (ln 1.15)"
    unfolding r3(3) n3 by simp
  show ?thesis
    using r1(1) r2(1) r3(1) w1 w2 w3 crab_trap_weight by blast
qed

text \<open>
  The claim as worded fails for a crab trap logged on an empty store: the multiplier is
  0.15 and the success count of the new \<open>rig_effects\<close> row is 1.
\<close>

theorem crab_trap_rig_count_counterexample:
  "condition_weight ''blue_crab'' (Some ''crab trap'') = 0.15
   \<and> map re_success_count (rig_effects empty_database) = []
   \<and> map re_success_count
         (rig_effects (snd (log_catch ex_env (bayscan_ops ex_scoring ex_tips)
                              empty_database crab_request))) = [1]"
  unfolding crab_rig_effects crab_trap_weight by (simp add: empty_database_def)

section \<open>Recent activity\<close>




section \<open>A request that names the rig under \<open>rig_type\<close>\<close>

text \<open>
  C3. The request of the scenario carries the rig under the key \<open>rig_type\<close>. The request
  model has no such field, the handler reads the rig from \<open>presentation\<close>, and so no
  \<open>rig_effects\<close> row is written, whatever the environment, the scoring and the tip
  generator do. In an environment where nothing raises the rest of the scenario holds: one
  catch row, and a cached score for the pair with confidence low.
\<close>

theorem rig_type_key_dropped:
  "parse_CatchCreate c3_body = Valid c3_request \<and> cc_presentation c3_request = None
   \<and> (\<exists>answer store.
          post_catches env (bayscan_ops scoring tips) empty_database c3_body
            = Valid (answer, store)
        \<and> rig_effects store = [])
   \<and> post_catches ex_env (bayscan_ops ex_scoring ex_tips) empty_database c3_body
       = Valid (Inr (success_response c3_catch), c3_store)
   \<and> catches c3_store = [c3_catch] \<and> rig_effects c3_store = []
   \<and> map bs_confidence (bite_scores c3_store) = [''low'']"
proof -
  have "rig_effects (snd (log_catch env (bayscan_ops scoring tips) empty_database c3_request)) = []"
  proof (cases "persist_catch env empty_database c3_request")
    case (Inl e)
    then show ?thesis by (simp add: log_catch_def empty_database_def)
  next
    case (Inr p)
    obtain catch db1 where p: "p = (catch, db1)" by (cases p)
    note ok = Inr[unfolded p]
    have "c_rig_type catch = None"
      using persist_catch_Inr(2)[OF ok] by (simp add: c3_request_def)
    moreover have "rig_effects db1 = []"
      using persist_catch_Inr(1)[OF ok] by (simp add: empty_database_def)
    ultimately show ?thesis
      by (simp add: log_catch_after_commit[OF ok] triggers_rig_effects truthy_def)
  qed
  moreover have "post_catches env (bayscan_ops scoring tips) empty_database c3_body
      = Valid (fst (log_catch env (bayscan_ops scoring tips) empty_database c3_request),
               snd (log_catch env (bayscan_ops scoring tips) empty_database c3_request))"
    by (simp add: post_catches_def c3_parse)
  ultimately have general: "\<exists>answer store.
          post_catches env (bayscan_ops scoring tips) empty_database c3_body
            = Valid (answer, store)
        \<and> rig_effects store = []"
    by blast
  have store: "catches c3_store = [c3_catch]" "rig_effects c3_store = []"
    "map bs_confidence (bite_scores c3_store) = [''low'']"
    by (simp_all add: c3_store_def empty_database_def c3_score_row_def)
  have req: "cc_presentation c3_request = None" by (simp add: c3_request_def)
  show ?thesis using general store req c3_parse c3_result by simp
qed

section \<open>Failures of the event triggers\<close>

text \<open>
  C6. Once the \<open>Catch\<close> row is committed the handler answers with the success response
  carrying the id of that row, whatever the five trigger steps do: the row is in the store
  on which the triggers run, an exception of a step ends the triggers and is not passed on,
  and with the updaters of this system the row is still in the store afterwards.
\<close>

theorem learning_failures_swallowed:
  assumes "persist_catch env db catch_data = Inr (catch, db1)"
  shows "fst (log_catch env ops db catch_data) = Inr (success_response catch)
       \<and> cr_id (success_response catch) = c_id catch
       \<and> catch \<in> set (catches db1)
       \<and> snd (log_catch env ops db catch_data) = snd (catch_triggers env ops db1 catch)
       \<and> catch \<in> set (catches (snd (log_catch env (bayscan_ops scoring tips) db catch_data)))"
proof -
  have mem: "catch \<in> set (catches db1)"
    using persist_catch_Inr(1)[OF assms] by simp
  show ?thesis
    using mem by (simp add: log_catch_after_commit[OF assms] success_response_def triggers_catches)
qed

theorem learning_failures_swallowed_witness:
  "fst (log_catch ex_env failing_ops empty_database crab_request) = Inr (success_response crab_catch)
   \<and> cr_id (success_response crab_catch) = 1
   \<and> fst (catch_triggers ex_env failing_ops (empty_database\<lparr>catches := [crab_catch]\<rparr>) crab_catch)
       = Inl (Raised ''locked'')
   \<and> catches (snd (log_catch ex_env failing_ops empty_database crab_request)) = [crab_catch]"
proof -
  have t: "catch_triggers ex_env failing_ops (empty_database\<lparr>catches := [crab_catch]\<rparr>) crab_catch
      = (Inl (Raised ''locked''), empty_database\<lparr>catches := [crab_catch]\<rparr>)"
    by (simp add: catch_triggers_def failing_ops_def then_step_def crab_catch_def truthy_def Let_def)
  have id: "c_id crab_catch = 1" by (simp add: crab_catch_def)
  have c: "catches (empty_database\<lparr>catches := [crab_catch]\<rparr>) = [crab_catch]" by simp
  from learning_failures_swallowed[OF crab_persist, of failing_ops]
  show ?thesis unfolding t snd_conv fst_conv c by (simp add: success_response_def id)
qed

section \<open>Predator penalty\<close>

text \<open>
  C7, as the code has it. The predator modifier is 0 for a species outside the prey list
  speckled_trout, white_trout, menhaden, mullet, live_shrimp; for a species of the list it
  is 0 when the zone has no predator log from the last 4 hours and otherwise
  \<open>- 8 * max 0 (1 - hours_ago / 4)\<close> for the latest of those logs.
\<close>

theorem predator_modifier_value:
  "calculate_predator_modifier db species zone_id now =
     (if species \<in> set [''speckled_trout'', ''white_trout'', ''menhaden'', ''mullet'', ''live_shrimp'']
      then
        (if recent_predators_of db zone_id now = [] then 0
         else - 8 * max 0 (1 - hours_between now
                                 (Max (pl_time ` set (recent_predators_of db zone_id now))) / 4))
      else 0)"
proof (cases "recent_predators_of db zone_id now")
  case Nil
  then show ?thesis
    by (simp add: calculate_predator_modifier_def is_prey_species_def prey_list_def)
next
  case (Cons p ps)
  then show ?thesis
    using max_by_Max[of pl_time p ps]
    by (simp add: calculate_predator_modifier_def is_prey_species_def prey_list_def Let_def)
qed

theorem predator_modifier_value_witness:
  "calculate_predator_modifier predator_db ''live_shrimp'' ''Zone 1'' 0 = - 8
   \<and> calculate_predator_modifier predator_db ''redfish'' ''Zone 1'' 0 = 0
   \<and> calculate_predator_modifier empty_database ''mullet'' ''Zone 1'' 0 = 0"
proof -
  have e: "recent_predators_of empty_database ''Zone 1'' 0 = []"
    by (simp add: recent_predators_of_def empty_database_def)
  have h: "hours_between 0 (pl_time predator_now) = 0"
    by (simp add: hours_between_def predator_now_def)
  from predator_modifier_value[of predator_db "''live_shrimp''" "''Zone 1''" 0]
    predator_modifier_value[of predator_db "''redfish''" "''Zone 1''" 0]
    predator_modifier_value[of empty_database "''mullet''" "''Zone 1''" 0]
  show ?thesis by (simp add: predator_recent e h)
qed

text \<open>
  The claim as worded lists the key \<open>shrimp\<close>: with a predator logged this instant the
  claimed penalty is -8 and the code gives 0; the key that is penalised is \<open>live_shrimp\<close>.
\<close>

theorem shrimp_key_not_prey:
  "calculate_predator_modifier predator_db ''shrimp'' ''Zone 1'' 0 = 0
   \<and> - 8 * max 0 (1 - hours_between 0 (pl_time predator_now) / 4) = - 8
   \<and> calculate_predator_modifier predator_db ''live_shrimp'' ''Zone 1'' 0 = - 8"
  by (simp add: calculate_predator_modifier_def is_prey_species_def prey_list_def predator_recent
      hours_between_def predator_now_def)

section \<open>Selection of the periodic recalculation\<close>

text \<open>
  C9. The selection never reads the bait logs: changing them changes no selected pair. With
  one bait log in Zone 2 from this instant and nothing else, the selection is empty and the
  fallback recomputes the 25 pairs of Tier 1 species and zones.
\<close>

theorem bait_activity_not_selected:
  "recent_activity_pairs bait_db 0 = []
   \<and> length (pairs_to_recalc bait_db 0) = 25
   \<and> filter (\<lambda>p. snd p = ''Zone 2'') (pairs_to_recalc bait_db 0)
       = [(''speckled_trout'', ''Zone 2''), (''redfish'', ''Zone 2''), (''flounder'', ''Zone 2''),
          (''sheepshead'', ''Zone 2''), (''black_drum'', ''Zone 2'')]
   \<and> recent_activity_pairs (db\<lparr>bait_logs := logs\<rparr>) now = recent_activity_pairs db now"
proof -
  have a: "recent_activity_pairs bait_db 0 = []"
    by (simp add: recent_activity_pairs_def bait_db_def empty_database_def)
  have b: "recent_activity_pairs (db\<lparr>bait_logs := logs\<rparr>) now = recent_activity_pairs db now"
    by (simp add: recent_activity_pairs_def)
  show ?thesis
    by (simp add: a b pairs_to_recalc_def TIER_1_SPECIES_def)
qed

end
